theory Spec2Isabelle
  imports Main "HOL-Library.Sublist"
begin

section \<open>Strings as the parser uses them\<close>

text \<open>
  A type string is a \<^typ>\<open>string\<close>: one \<^typ>\<open>char\<close> per code unit of the JavaScript
  string (code units below 256). The helpers below are the \<^verbatim>\<open>String.prototype\<close>
  methods and the regular expressions that \<^verbatim>\<open>parseType\<close>, \<^verbatim>\<open>splitGenericArgs\<close>
  and \<^verbatim>\<open>parseJSDoc\<close> call, each written out as the recursion it performs.
\<close>

text \<open>\<^verbatim>\<open>s.includes(pat)\<close>: some suffix of \<open>s\<close> starts with \<open>pat\<close>.\<close>

fun includesStr :: "string \<Rightarrow> string \<Rightarrow> bool" where
  "includesStr [] pat = (pat = [])"
| "includesStr (c # cs) pat = (prefix pat (c # cs) \<or> includesStr cs pat)"

text \<open>\<^verbatim>\<open>s.startsWith(pat)\<close> and \<^verbatim>\<open>s.endsWith(pat)\<close>.\<close>

definition startsWith :: "string \<Rightarrow> string \<Rightarrow> bool" where
  "startsWith s pat = prefix pat s"

definition endsWith :: "string \<Rightarrow> string \<Rightarrow> bool" where
  "endsWith s pat = prefix (rev pat) (rev s)"

text \<open>
  \<^verbatim>\<open>s.replace(pat, '')\<close> with a string pattern: only the first occurrence of \<open>pat\<close>
  is removed.
\<close>

fun replaceFirst :: "string \<Rightarrow> string \<Rightarrow> string" where
  "replaceFirst [] pat = []"
| "replaceFirst (c # cs) pat =
     (if prefix pat (c # cs) then drop (length pat) (c # cs) else c # replaceFirst cs pat)"

text \<open>
  \<^verbatim>\<open>s.trim()\<close>: white space and line terminators are removed at both ends; below
  code unit 256 these are tab, line feed, vertical tab, form feed, carriage return, space
  and the no-break space.
\<close>

definition isWhiteSpace :: "char \<Rightarrow> bool" where
  "isWhiteSpace c = (c \<in> set [CHR 0x09, CHR 0x0A, CHR 0x0B, CHR 0x0C, CHR 0x0D, CHR 0x20, CHR 0xA0])"

definition trim :: "string \<Rightarrow> string" where
  "trim s = rev (dropWhile isWhiteSpace (rev (dropWhile isWhiteSpace s)))"

text \<open>\<^verbatim>\<open>s.split(sep)\<close> for a one-character separator: never an empty list.\<close>

fun split :: "string \<Rightarrow> char \<Rightarrow> string list" where
  "split [] sep = [[]]"
| "split (c # cs) sep =
     (if c = sep then [] # split cs sep
      else (case split cs sep of [] \<Rightarrow> [[c]] | p # ps \<Rightarrow> (c # p) # ps))"

text \<open>
  The regular expressions. \<^verbatim>\<open>.\<close> matches every character but a line terminator,
  \<^verbatim>\<open>\w\<close> matches letters, digits and the underscore. A quantifier is greedy, and the
  match is the one at the leftmost position where any match exists.
\<close>

definition isLineTerminator :: "char \<Rightarrow> bool" where
  "isLineTerminator c = (c = CHR 0x0A \<or> c = CHR 0x0D)"

definition isWordChar :: "char \<Rightarrow> bool" where
  "isWordChar c =
     (let n = of_char c :: nat
      in (97 \<le> n \<and> n \<le> 122) \<or> (65 \<le> n \<and> n \<le> 90) \<or> (48 \<le> n \<and> n \<le> 57) \<or> n = 95)"

text \<open>
  \<open>greedyUpTo c s\<close>: the longest prefix of \<open>s\<close>, free of line terminators, that is
  followed by \<open>c\<close>; this is \<^verbatim>\<open>(.*)c\<close> anchored at the start of \<open>s\<close>.
\<close>

fun greedyUpTo :: "char \<Rightarrow> string \<Rightarrow> string option" where
  "greedyUpTo c [] = None"
| "greedyUpTo c (x # xs) =
     (case (if isLineTerminator x then None else greedyUpTo c xs) of
        Some p \<Rightarrow> Some (x # p)
      | None \<Rightarrow> if x = c then Some [] else None)"

text \<open>\<^verbatim>\<open>(.+)>\<close> anchored at the start of \<open>s\<close>: the captured group.\<close>

fun dotPlusGt :: "string \<Rightarrow> string option" where
  "dotPlusGt [] = None"
| "dotPlusGt (x # xs) =
     (if isLineTerminator x then None else map_option ((#) x) (greedyUpTo (CHR ''>'') xs))"

text \<open>
  \<^verbatim>\<open>s.match(/LIT(.+)>/)\<close> for a literal \<open>lit\<close> (\<^verbatim>\<open>Promise<\<close>, \<^verbatim>\<open>Array<\<close>):
  the group of the leftmost match, \<open>None\<close> for \<^verbatim>\<open>null\<close>.
\<close>

fun matchLiteralGroup :: "string \<Rightarrow> string \<Rightarrow> string option" where
  "matchLiteralGroup lit [] = None"
| "matchLiteralGroup lit (c # cs) =
     (case (if prefix lit (c # cs) then dotPlusGt (drop (length lit) (c # cs)) else None) of
        Some g \<Rightarrow> Some g
      | None \<Rightarrow> matchLiteralGroup lit cs)"

text \<open>
  \<^verbatim>\<open>s.match(/(\w+)<(.+)>/)\<close>: at a start position the greedy \<^verbatim>\<open>\w+\<close> takes the
  whole run of word characters (a shorter run is followed by a word character, never
  by \<^verbatim>\<open><\<close>); both groups of the leftmost match.
\<close>

definition genericAt :: "string \<Rightarrow> (string \<times> string) option" where
  "genericAt s =
     (if takeWhile isWordChar s = [] then None
      else (case dropWhile isWordChar s of
              [] \<Rightarrow> None
            | x # r \<Rightarrow> if x = CHR ''<'' then map_option (Pair (takeWhile isWordChar s)) (dotPlusGt r)
                       else None))"

fun matchGeneric :: "string \<Rightarrow> (string \<times> string) option" where
  "matchGeneric [] = None"
| "matchGeneric (c # cs) =
     (case genericAt (c # cs) of Some m \<Rightarrow> Some m | None \<Rightarrow> matchGeneric cs)"

text \<open>
  \<^verbatim>\<open>s.match(/\{([^}]+)\}/)\<close>: at an opening brace the group is the run of characters
  up to the next closing brace, which must exist and leave the group non-empty.
\<close>

definition bracedAt :: "string \<Rightarrow> string option" where
  "bracedAt s =
     (case s of
        [] \<Rightarrow> None
      | x # r \<Rightarrow>
          if x = CHR ''{'' \<and> takeWhile (\<lambda>c. c \<noteq> CHR ''}'') r \<noteq> [] \<and> dropWhile (\<lambda>c. c \<noteq> CHR ''}'') r \<noteq> []
          then Some (takeWhile (\<lambda>c. c \<noteq> CHR ''}'') r) else None)"

fun matchBraced :: "string \<Rightarrow> string option" where
  "matchBraced [] = None"
| "matchBraced (c # cs) =
     (case bracedAt (c # cs) of Some g \<Rightarrow> Some g | None \<Rightarrow> matchBraced cs)"

section \<open>The type normalizer\<close>

text \<open>\<^verbatim>\<open>ASTParserConfig\<close> and \<^verbatim>\<open>DEFAULT_AST_CONFIG\<close> of \<^verbatim>\<open>types.ts\<close>.\<close>

record ASTParserConfig =
  captureInstanceMethods :: bool
  captureStaticMethods :: bool
  capturePropertyMethods :: bool
  captureGetAccessors :: bool
  captureSetAccessors :: bool
  captureArrowFunctions :: bool
  captureComplexTypes :: bool

definition DEFAULT_AST_CONFIG :: ASTParserConfig where
  "DEFAULT_AST_CONFIG =
     \<lparr> captureInstanceMethods = True, captureStaticMethods = True,
       capturePropertyMethods = True, captureGetAccessors = True,
       captureSetAccessors = True, captureArrowFunctions = True,
       captureComplexTypes = True \<rparr>"

text \<open>
  \<^verbatim>\<open>TypeInfo\<close>: the three optional array fields are \<open>None\<close> where the object
  literal leaves them out.
\<close>

datatype TypeInfo = TypeInfo
  (baseType: string)
  (typeArguments: "TypeInfo list option")
  (unionTypes: "TypeInfo list option")
  (intersectionTypes: "TypeInfo list option")
  (isOptional: bool)
  (isNullable: bool)
  (rawType: string)

text \<open>
  \<^verbatim>\<open>splitGenericArgs\<close>: the \<^verbatim>\<open>for ... of\<close> loop over the characters, with its
  three variables as the state; \<open>depth\<close> may go below zero.
\<close>

fun splitGenericArgs_loop :: "string \<Rightarrow> string list \<Rightarrow> string \<Rightarrow> int \<Rightarrow> string list \<times> string" where
  "splitGenericArgs_loop [] result currentArg depth = (result, currentArg)"
| "splitGenericArgs_loop (char # rest) result currentArg depth =
     (if char = CHR ''<'' then splitGenericArgs_loop rest result (currentArg @ [char]) (depth + 1)
      else if char = CHR ''>'' then splitGenericArgs_loop rest result (currentArg @ [char]) (depth - 1)
      else if char = CHR '','' \<and> depth = 0
           then splitGenericArgs_loop rest (result @ [trim currentArg]) [] depth
      else splitGenericArgs_loop rest result (currentArg @ [char]) depth)"

definition splitGenericArgs :: "string \<Rightarrow> string list" where
  "splitGenericArgs argsString =
     (case splitGenericArgs_loop argsString [] [] 0 of
        (result, currentArg) \<Rightarrow>
          if trim currentArg \<noteq> [] then result @ [trim currentArg] else result)"

text \<open>The three values \<^verbatim>\<open>parseType\<close> computes before it matches.\<close>

definition isOptionalOf :: "string \<Rightarrow> bool" where
  "isOptionalOf typeString = (endsWith typeString ''?'' \<or> includesStr typeString ''|undefined'')"

definition isNullableOf :: "string \<Rightarrow> bool" where
  "isNullableOf typeString = includesStr typeString ''|null''"

definition cleanTypeOf :: "string \<Rightarrow> string" where
  "cleanTypeOf typeString =
     trim (replaceFirst (replaceFirst (replaceFirst typeString ''?'') ''|undefined'') ''|null'')"

text \<open>\<^verbatim>\<open>cleanType.slice(0, -2)\<close> and \<^verbatim>\<open>cleanType.slice(1, -1)\<close>.\<close>

definition slice_0_m2 :: "string \<Rightarrow> string" where
  "slice_0_m2 s = take (length s - 2) s"

definition slice_1_m1 :: "string \<Rightarrow> string" where
  "slice_1_m1 s = drop 1 (take (length s - 1) s)"

definition promiseMatch :: "string \<Rightarrow> string option" where
  "promiseMatch cleanType =
     (if includesStr cleanType ''Promise<'' then matchLiteralGroup ''Promise<'' cleanType else None)"

definition arrayMatch :: "string \<Rightarrow> string option" where
  "arrayMatch cleanType =
     (if includesStr cleanType ''Array<'' then matchLiteralGroup ''Array<'' cleanType else None)"

definition isTuple :: "string \<Rightarrow> bool" where
  "isTuple cleanType =
     (startsWith cleanType ''['' \<and> endsWith cleanType '']'' \<and> trim (slice_1_m1 cleanType) \<noteq> [])"

text \<open>
  None of the helpers returns a string longer than its input, and every regular expression
  captures a proper part of it: this is why the recursion of \<^verbatim>\<open>parseType\<close> ends.
\<close>

lemma length_replaceFirst: "length (replaceFirst s pat) \<le> length s"
  by (induction s) auto

lemma length_trim: "length (trim s) \<le> length s"
  unfolding trim_def
  by (metis length_dropWhile_le length_rev order_trans)

lemma length_cleanTypeOf: "length (cleanTypeOf s) \<le> length s"
  unfolding cleanTypeOf_def
  by (meson length_replaceFirst length_trim order_trans)

lemma greedyUpTo_length: "greedyUpTo c s = Some p \<Longrightarrow> length p < length s"
  by (induction s arbitrary: p) (auto split: option.splits if_splits)

lemma dotPlusGt_length: "dotPlusGt s = Some g \<Longrightarrow> length g < length s"
  by (cases s) (auto split: if_splits dest: greedyUpTo_length)

lemma matchLiteralGroup_length: "matchLiteralGroup lit s = Some g \<Longrightarrow> length g < length s"
proof (induction s)
  case Nil
  then show ?case by simp
next
  case (Cons c cs)
  show ?case
  proof (cases "if prefix lit (c # cs) then dotPlusGt (drop (length lit) (c # cs)) else None")
    case None
    with Cons show ?thesis by (auto split: if_splits)
  next
    case (Some h)
    with Cons.prems have "h = g" by simp
    with Some have "dotPlusGt (drop (length lit) (c # cs)) = Some g" by (auto split: if_splits)
    from dotPlusGt_length[OF this] show ?thesis
      by (metis length_drop diff_le_self less_le_trans  order_less_le_trans)
  qed
qed

lemma genericAt_length: "genericAt s = Some (b, a) \<Longrightarrow> length a < length s"
proof -
  assume h: "genericAt s = Some (b, a)"
  then obtain x r where r: "dropWhile isWordChar s = x # r" "dotPlusGt r = Some a"
    unfolding genericAt_def by (auto split: if_splits list.splits)
  have "length (dropWhile isWordChar s) \<le> length s" by (rule length_dropWhile_le)
  with r dotPlusGt_length[OF r(2)] show ?thesis by simp
qed

lemma matchGeneric_length: "matchGeneric s = Some (b, a) \<Longrightarrow> length a < length s"
  by (induction s) (auto split: option.splits dest: genericAt_length)

lemma split_length: "p \<in> set (split s sep) \<Longrightarrow> length p \<le> length s"
  by (induction s arbitrary: p) (auto split: if_splits list.splits, fastforce+)

lemma split_length_strict:
  "sep \<in> set s \<Longrightarrow> p \<in> set (split s sep) \<Longrightarrow> length p < length s"
proof (induction s arbitrary: p)
  case Nil
  then show ?case by simp
next
  case (Cons c cs)
  show ?case
  proof (cases "c = sep")
    case True
    with Cons.prems show ?thesis by (auto dest: split_length simp: less_Suc_eq_le)
  next
    case False
    with Cons.prems have m: "sep \<in> set cs" by simp
    obtain q qs where q: "split cs sep = q # qs" by (cases "split cs sep") (cases cs; auto split: if_splits list.splits)+
    with False Cons.prems have "p = c # q \<or> p \<in> set qs" by auto
    then show ?thesis
    proof
      assume "p = c # q"
      with Cons.IH[OF m, of q] q show ?thesis by simp
    next
      assume "p \<in> set qs"
      with Cons.IH[OF m, of p] q show ?thesis by simp
    qed
  qed
qed

lemma includesStr_single: "includesStr s [c] = (c \<in> set s)"
  by (induction s) auto


lemma splitGenericArgs_loop_length:
  "splitGenericArgs_loop s result cur d = (res', cur') \<Longrightarrow>
   \<forall>a \<in> set result. length a \<le> n \<Longrightarrow> length cur + length s \<le> n \<Longrightarrow>
   (\<forall>a \<in> set res'. length a \<le> n) \<and> length cur' \<le> n"
proof (induction s arbitrary: result cur d)
  case Nil
  then show ?case by simp
next
  case (Cons c rest)
  have len: "length (cur @ [c]) + length rest \<le> n" using Cons.prems(3) by simp
  consider (lt) "c = CHR ''<''" | (gt) "c \<noteq> CHR ''<''" "c = CHR ''>''"
    | (comma) "c \<noteq> CHR ''<''" "c \<noteq> CHR ''>''" "c = CHR '',''" "d = 0"
    | (other) "c \<noteq> CHR ''<''" "c \<noteq> CHR ''>''" "\<not> (c = CHR '','' \<and> d = 0)"
    by blast
  then show ?case
  proof cases
    case lt
    with Cons.prems(1) have "splitGenericArgs_loop rest result (cur @ [c]) (d + 1) = (res', cur')"
      by simp
    from Cons.IH[OF this Cons.prems(2) len] show ?thesis .
  next
    case gt
    with Cons.prems(1) have "splitGenericArgs_loop rest result (cur @ [c]) (d - 1) = (res', cur')"
      by simp
    from Cons.IH[OF this Cons.prems(2) len] show ?thesis .
  next
    case comma
    with Cons.prems(1) have e: "splitGenericArgs_loop rest (result @ [trim cur]) [] d = (res', cur')"
      by simp
    have "length (trim cur) \<le> n" using length_trim[of cur] Cons.prems(3) by simp
    with Cons.prems(2) have r: "\<forall>a \<in> set (result @ [trim cur]). length a \<le> n" by simp
    have "length ([]::string) + length rest \<le> n" using Cons.prems(3) by simp
    from Cons.IH[OF e r this] show ?thesis .
  next
    case other
    with Cons.prems(1) have "splitGenericArgs_loop rest result (cur @ [c]) d = (res', cur')"
      by simp
    from Cons.IH[OF this Cons.prems(2) len] show ?thesis .
  qed
qed

lemma splitGenericArgs_length:
  assumes "a \<in> set (splitGenericArgs s)"
  shows "length a \<le> length s"
proof -
  obtain res cur where l: "splitGenericArgs_loop s [] [] 0 = (res, cur)"
    by (cases "splitGenericArgs_loop s [] [] 0")
  from splitGenericArgs_loop_length[OF l, of "length s"]
  have r: "\<forall>a \<in> set res. length a \<le> length s" and c: "length cur \<le> length s" by simp_all
  have "length (trim cur) \<le> length s" using length_trim[of cur] c by simp
  with assms l r show ?thesis
    unfolding splitGenericArgs_def by (auto split: if_splits)
qed


text \<open>
  The ordered pattern match of \<^verbatim>\<open>parseType\<close> (lines 102 to 202), first match wins.
  \<open>parseType_rec\<close> stands for the recursive call \<^verbatim>\<open>this.parseType\<close>; the
  function below ties the knot. Each branch returns the object literal of the source,
  \<^verbatim>\<open>rawType: typeString\<close> last.
\<close>

definition parseType_match ::
  "(string \<Rightarrow> TypeInfo) \<Rightarrow> string \<Rightarrow> bool \<Rightarrow> bool \<Rightarrow> string \<Rightarrow> TypeInfo" where
  "parseType_match parseType_rec cleanType isOpt isNull typeString =
     (case promiseMatch cleanType of
        Some m \<Rightarrow> TypeInfo ''Promise'' (Some [parseType_rec m]) None None isOpt isNull typeString
      | None \<Rightarrow>
          if endsWith cleanType ''[]''
          then TypeInfo ''Array'' (Some [parseType_rec (slice_0_m2 cleanType)]) None None
                 isOpt isNull typeString
          else (case arrayMatch cleanType of
            Some m \<Rightarrow> TypeInfo ''Array'' (Some [parseType_rec m]) None None isOpt isNull typeString
          | None \<Rightarrow>
              (case matchGeneric cleanType of
                Some (genericBase, argsString) \<Rightarrow>
                  TypeInfo genericBase (Some (map parseType_rec (splitGenericArgs argsString)))
                    None None isOpt isNull typeString
              | None \<Rightarrow>
                  if isTuple cleanType
                  then TypeInfo cleanType None None None isOpt isNull typeString
                  else if includesStr cleanType ''|''
                  then TypeInfo (hd (map trim (split cleanType (CHR ''|''))))
                         None
                         (Some (map parseType_rec (map trim (split cleanType (CHR ''|'')))))
                         None isOpt isNull typeString
                  else if includesStr cleanType ''&''
                  then TypeInfo (hd (map trim (split cleanType (CHR ''&''))))
                         None None
                         (Some (map parseType_rec (map trim (split cleanType (CHR ''&'')))))
                         isOpt isNull typeString
                  else TypeInfo cleanType None None None isOpt isNull typeString)))"

lemma promiseMatch_length: "promiseMatch s = Some m \<Longrightarrow> length m < length s"
  unfolding promiseMatch_def by (auto split: if_splits dest: matchLiteralGroup_length)

lemma arrayMatch_length: "arrayMatch s = Some m \<Longrightarrow> length m < length s"
  unfolding arrayMatch_def by (auto split: if_splits dest: matchLiteralGroup_length)

lemma slice_0_m2_length: "endsWith s ''[]'' \<Longrightarrow> length (slice_0_m2 s) < length s"
proof -
  assume "endsWith s ''[]''"
  then have "length s \<ge> 2"
    unfolding endsWith_def by (auto dest!: prefix_length_le)
  then show ?thesis unfolding slice_0_m2_def by simp
qed

lemma splitGenericArgs_match_length:
  "matchGeneric s = Some (b, a) \<Longrightarrow> t \<in> set (splitGenericArgs a) \<Longrightarrow> length t < length s"
  using matchGeneric_length splitGenericArgs_length by fastforce

lemma split_trim_length:
  assumes "includesStr s [sep]" and "t \<in> set (map trim (split s sep))"
  shows "length t < length s"
proof -
  from assms(2) obtain p where p: "p \<in> set (split s sep)" "t = trim p" by auto
  from assms(1) have "sep \<in> set s" by (simp add: includesStr_single)
  from split_length_strict[OF this p(1)] length_trim[of p] p(2) show ?thesis by simp
qed

lemma parseType_match_cong [fundef_cong]:
  assumes "cleanType = cleanType'" "isOpt = isOpt'" "isNull = isNull'" "typeString = typeString'"
    and r: "\<And>t. length t < length cleanType' \<Longrightarrow> f t = g t"
  shows "parseType_match f cleanType isOpt isNull typeString =
         parseType_match g cleanType' isOpt' isNull' typeString'"
proof -
  have p: "f m = g m" if "promiseMatch cleanType' = Some m" for m
    using that by (intro r) (rule promiseMatch_length)
  have a: "f m = g m" if "arrayMatch cleanType' = Some m" for m
    using that by (intro r) (rule arrayMatch_length)
  have s: "f (slice_0_m2 cleanType') = g (slice_0_m2 cleanType')" if "endsWith cleanType' ''[]''"
    using that by (intro r) (rule slice_0_m2_length)
  have g: "map f (splitGenericArgs a) = map g (splitGenericArgs a)"
    if "matchGeneric cleanType' = Some (b, a)" for a b
    using that by (intro map_cong refl r) (rule splitGenericArgs_match_length)
  have u: "map f (map trim (split cleanType' sep)) = map g (map trim (split cleanType' sep))"
    if "includesStr cleanType' [sep]" for sep
    using that by (intro map_cong refl r) (rule split_trim_length)
  show ?thesis
  proof (cases "promiseMatch cleanType'")
    case (Some m)
    then show ?thesis unfolding parseType_match_def assms(1-4) by (simp add: p)
  next
    case pn: None
    show ?thesis
    proof (cases "endsWith cleanType' ''[]''")
      case True
      with pn show ?thesis unfolding parseType_match_def assms(1-4) by (simp add: s)
    next
      case en: False
      show ?thesis
      proof (cases "arrayMatch cleanType'")
        case (Some m)
        with pn en show ?thesis unfolding parseType_match_def assms(1-4) by (simp add: a)
      next
        case an: None
        show ?thesis
        proof (cases "matchGeneric cleanType'")
          case (Some ba)
          obtain b a' where ba: "ba = (b, a')" by (cases ba)
          from Some ba g[of b a'] have "map f (splitGenericArgs a') = map g (splitGenericArgs a')"
            by simp
          with pn en an Some ba show ?thesis
            unfolding parseType_match_def assms(1-4) by simp
        next
          case gn: None
          show ?thesis
          proof (cases "includesStr cleanType' ''|''")
            case True
            from u[OF True] pn en an gn True show ?thesis
              unfolding parseType_match_def assms(1-4) by simp
          next
            case un: False
            show ?thesis
            proof (cases "includesStr cleanType' ''&''")
              case True
              from u[OF True] pn en an gn un True show ?thesis
                unfolding parseType_match_def assms(1-4) by simp
            next
              case False
              with pn en an gn un show ?thesis
                unfolding parseType_match_def assms(1-4) by simp
            qed
          qed
        qed
      qed
    qed
  qed
qed

text \<open>
  \<^verbatim>\<open>parseType\<close>: the early return for an empty string or a configuration without
  \<^verbatim>\<open>captureComplexTypes\<close>, then the markers and the match on the cleaned text.
\<close>

function parseType :: "ASTParserConfig \<Rightarrow> string \<Rightarrow> TypeInfo" where
  "parseType cfg typeString =
     (if typeString = [] \<or> \<not> captureComplexTypes cfg
      then TypeInfo typeString None None None False False typeString
      else parseType_match (parseType cfg) (cleanTypeOf typeString)
             (isOptionalOf typeString) (isNullableOf typeString) typeString)"
  by pat_completeness auto
termination
proof (relation "measure (\<lambda>(cfg, typeString). length typeString)")
  show "wf (measure (\<lambda>(cfg, typeString). length typeString))" by simp
next
  fix cfg :: ASTParserConfig and typeString t :: string
  assume "length t < length (cleanTypeOf typeString)"
  with length_cleanTypeOf[of typeString]
  show "((cfg, t), (cfg, typeString)) \<in> measure (\<lambda>(cfg, typeString). length typeString)" by simp
qed

declare parseType.simps [simp del]



lemma rawType_parseType_match: "rawType (parseType_match f c opt nul r) = r"
  unfolding parseType_match_def
  by (simp split: option.split prod.split)

section \<open>The documentation-comment extractor\<close>

text \<open>
  The comment parser is the external package \<^verbatim>\<open>comment-parser\<close>. It is a parameter
  of the model: a function from the text of a comment to the blocks it parses, or
  \<open>None\<close> where the call throws. Of a block the code reads the description and the
  tags, of a tag the four fields of \<open>CommentTag\<close>. A tag the package could not parse
  is returned all the same, with the reasons in its field \<^verbatim>\<open>errors\<close>, which the code
  never reads.
\<close>

record CommentTag =
  t_tag :: string
  t_name :: string
  t_type :: string
  t_description :: string

record ParsedTag = CommentTag +
  t_errors :: "string list"

record CommentBlock =
  b_description :: string
  b_tags :: "ParsedTag list"

type_synonym CommentParser = "string \<Rightarrow> CommentBlock list option"

text \<open>The value \<^verbatim>\<open>parseJSDoc\<close> returns.\<close>

record JSDocInfo =
  jd_description :: string
  jd_tags :: "CommentTag list"

definition emptyJSDoc :: JSDocInfo where
  "emptyJSDoc = \<lparr> jd_description = [], jd_tags = [] \<rparr>"

text \<open>
  \<^verbatim>\<open>tag.type.match(/\{([^}]+)\}/)\<close> and the choice
  \<^verbatim>\<open>typeMatch ? typeMatch[1] : tag.type\<close>.
\<close>

definition extractedType :: "string \<Rightarrow> string" where
  "extractedType ty = (case matchBraced ty of Some g \<Rightarrow> g | None \<Rightarrow> ty)"

text \<open>The callback of \<^verbatim>\<open>parsed[0].tags.map\<close> (lines 265 to 298).\<close>

definition processTag :: "ParsedTag \<Rightarrow> CommentTag" where
  "processTag tg =
     (if t_tag tg = ''param'' \<and> t_type tg \<noteq> []
      then \<lparr> t_tag = t_tag tg, t_name = t_name tg, t_type = extractedType (t_type tg),
             t_description = t_description tg \<rparr>
      else if t_tag tg = ''returns'' \<and> t_type tg \<noteq> []
      then \<lparr> t_tag = t_tag tg, t_name = [], t_type = extractedType (t_type tg),
             t_description = t_description tg \<rparr>
      else \<lparr> t_tag = t_tag tg, t_name = t_name tg, t_type = t_type tg,
             t_description = t_description tg \<rparr>)"

text \<open>
  The body of the \<^verbatim>\<open>try\<close> block of \<^verbatim>\<open>parseJSDoc\<close>: \<open>None\<close> where the comment
  parser throws, the only call in the block that can.
\<close>

definition parseJSDoc_try :: "CommentParser \<Rightarrow> string \<Rightarrow> JSDocInfo option" where
  "parseJSDoc_try commentParser jsDocText =
     (case commentParser jsDocText of
        None \<Rightarrow> None
      | Some parsed \<Rightarrow>
          (case parsed of
             [] \<Rightarrow> Some emptyJSDoc
           | first # _ \<Rightarrow>
               if list_ex (\<lambda>tg. t_tag tg = ''module'') (b_tags first) then Some emptyJSDoc
               else Some \<lparr> jd_description = b_description first,
                            jd_tags = map processTag (b_tags first) \<rparr>))"

text \<open>
  \<^verbatim>\<open>parseJSDoc\<close>. It is called on declarations only, so \<open>jsDocs\<close> is the list
  \<^verbatim>\<open>node.getJsDocs?.() || []\<close>, each comment given by its text; the \<^verbatim>\<open>catch\<close>
  clause turns a throw into the empty result.
\<close>

definition parseJSDoc :: "CommentParser \<Rightarrow> string list \<Rightarrow> JSDocInfo" where
  "parseJSDoc commentParser jsDocs =
     (case jsDocs of
        [] \<Rightarrow> emptyJSDoc
      | jsDocText # _ \<Rightarrow>
          (case parseJSDoc_try commentParser jsDocText of
             Some info \<Rightarrow> info
           | None \<Rightarrow> emptyJSDoc))"

section \<open>The member classifier\<close>

record ParamInfo =
  p_name :: string
  p_type :: TypeInfo
  p_description :: string
  p_optional :: bool

record ReturnInfo =
  r_type :: TypeInfo
  r_description :: string

datatype MethodKind = Instance | Static | Property | Getter | Setter | Function | Constructor

datatype Visibility = Public | Private | Protected

record MethodInfo =
  m_name :: string
  m_description :: string
  m_params :: "ParamInfo list"
  m_returns :: "ReturnInfo option"
  m_methodKind :: MethodKind
  m_isAsync :: bool
  m_visibility :: Visibility

text \<open>The method map \<^verbatim>\<open>Record<string, EnhancedMethodInfo>\<close>.\<close>

type_synonym Methods = "string \<rightharpoonup> MethodInfo"

text \<open>\<^verbatim>\<open>tag.name.replace(/^_/, '')\<close>: one leading underscore is dropped.\<close>

definition stripUnderscore :: "string \<Rightarrow> string" where
  "stripUnderscore s = (if startsWith s ''_'' then drop 1 s else s)"

definition extractParams :: "ASTParserConfig \<Rightarrow> JSDocInfo \<Rightarrow> ParamInfo list" where
  "extractParams cfg jsDoc =
     map (\<lambda>tg. \<lparr> p_name = stripUnderscore (t_name tg),
                  p_type = parseType cfg (t_type tg),
                  p_description = t_description tg,
                  p_optional = (startsWith (t_name tg) ''_''
                                \<or> includesStr (t_description tg) ''(optional)'') \<rparr>)
       (filter (\<lambda>tg. t_tag tg = ''param'') (jd_tags jsDoc))"

definition extractReturns :: "ASTParserConfig \<Rightarrow> JSDocInfo \<Rightarrow> ReturnInfo option" where
  "extractReturns cfg jsDoc =
     (case find (\<lambda>tg. t_tag tg = ''returns'') (jd_tags jsDoc) of
        None \<Rightarrow> None
      | Some returnTag \<Rightarrow>
          if t_type returnTag = [] then None
          else Some \<lparr> r_type = parseType cfg (t_type returnTag),
                       r_description = t_description returnTag \<rparr>)"

definition createMethodInfo ::
  "string \<Rightarrow> string \<Rightarrow> ParamInfo list \<Rightarrow> ReturnInfo option \<Rightarrow> MethodKind \<Rightarrow> bool \<Rightarrow> Visibility
   \<Rightarrow> MethodInfo" where
  "createMethodInfo name description params returns methodKind isAsync visibility =
     \<lparr> m_name = name, m_description = description, m_params = params, m_returns = returns,
       m_methodKind = methodKind, m_isAsync = isAsync, m_visibility = visibility \<rparr>"

text \<open>
  The declarations, as the syntax tree library \<^verbatim>\<open>ts-morph\<close> presents them: each
  record holds the answers of the node to the calls the parser makes on it. The fields
  \<open>exportKeyword\<close> and \<open>identifier\<close> are the answers to
  \<^verbatim>\<open>getFirstDescendantByKind(SyntaxKind.ExportKeyword) !== undefined\<close> and to
  \<^verbatim>\<open>getFirstDescendantByKind(SyntaxKind.Identifier)?.getText()\<close>, which the namespace
  walk uses in place of \<^verbatim>\<open>isExported()\<close> and \<^verbatim>\<open>getName()\<close>.
\<close>

record FunctionDeclaration =
  fd_name :: "string option"
  fd_isExported :: bool
  fd_isAsync :: bool
  fd_jsDocs :: "string list"
  fd_exportKeyword :: bool
  fd_identifier :: "string option"

record VariableDeclaration =
  vd_name :: string
  vd_initializer :: "string option"
  vd_isExported :: bool
  vd_jsDocs :: "string list"
  vd_identifier :: "string option"

record ConstructorDeclaration =
  ctor_jsDocs :: "string list"

record MethodDeclaration =
  md_name :: string
  md_isStatic :: bool
  md_isAsync :: bool
  md_privateKeyword :: bool
  md_protectedKeyword :: bool
  md_jsDocs :: "string list"

record PropertyDeclaration =
  pd_name :: string
  pd_initializer :: "string option"
  pd_privateKeyword :: bool
  pd_protectedKeyword :: bool
  pd_jsDocs :: "string list"

record ParameterDeclaration =
  prm_name :: string
  prm_typeText :: string

record AccessorDeclaration =
  ad_name :: string
  ad_parameters :: "ParameterDeclaration list"
  ad_privateKeyword :: bool
  ad_protectedKeyword :: bool
  ad_jsDocs :: "string list"

record ClassDeclaration =
  cd_name :: "string option"
  cd_isExported :: bool
  cd_constructors :: "ConstructorDeclaration list"
  cd_methods :: "MethodDeclaration list"
  cd_properties :: "PropertyDeclaration list"
  cd_getAccessors :: "AccessorDeclaration list"
  cd_setAccessors :: "AccessorDeclaration list"
  cd_exportKeyword :: bool
  cd_identifier :: "string option"

text \<open>
  \<^verbatim>\<open>a || b\<close> on strings: \<open>b\<close> where \<open>a\<close> is \<^verbatim>\<open>undefined\<close> or empty.
\<close>

definition orElse :: "string option \<Rightarrow> string \<Rightarrow> string" where
  "orElse a b = (case a of None \<Rightarrow> b | Some s \<Rightarrow> if s = [] then b else s)"

text \<open>
  The visibility that the two \<^verbatim>\<open>hasModifier\<close> tests leave in the variable: the
  test for \<^verbatim>\<open>protected\<close> comes last and wins.
\<close>

definition visibilityOf :: "bool \<Rightarrow> bool \<Rightarrow> Visibility" where
  "visibilityOf privateKeyword protectedKeyword =
     (if protectedKeyword then Protected else if privateKeyword then Private else Public)"

text \<open>
  Each \<^verbatim>\<open>process...\<close> method writes into the method map it is handed; the model
  returns the updated map. A call of \<^verbatim>\<open>createMethodInfo\<close> that leaves the visibility
  out passes the default \<^verbatim>\<open>'public'\<close>.
\<close>

definition processFunctionDeclaration ::
  "CommentParser \<Rightarrow> ASTParserConfig \<Rightarrow> FunctionDeclaration \<Rightarrow> Methods \<Rightarrow> string option \<Rightarrow> Methods" where
  "processFunctionDeclaration commentParser cfg declaration methods namePrefix =
     (let funcName = orElse (fd_name declaration) [];
          name = orElse namePrefix funcName;
          jsDoc = parseJSDoc commentParser (fd_jsDocs declaration);
          params = extractParams cfg jsDoc;
          returns = extractReturns cfg jsDoc;
          isAsync = fd_isAsync declaration
      in methods(name \<mapsto>
           createMethodInfo name (jd_description jsDoc) params returns Function isAsync Public))"

definition isFunctionText :: "string \<Rightarrow> bool" where
  "isFunctionText text =
     (includesStr text ''=>'' \<or> startsWith text ''function'' \<or> startsWith text ''async function'')"

definition processVariableDeclaration ::
  "CommentParser \<Rightarrow> ASTParserConfig \<Rightarrow> VariableDeclaration \<Rightarrow> Methods \<Rightarrow> string option \<Rightarrow> Methods" where
  "processVariableDeclaration commentParser cfg declaration methods namePrefix =
     (let name = orElse namePrefix (vd_name declaration)
      in (case vd_initializer declaration of
            None \<Rightarrow> methods
          | Some text \<Rightarrow>
              if \<not> isFunctionText text then methods
              else (let jsDoc = parseJSDoc commentParser (vd_jsDocs declaration);
                        params = extractParams cfg jsDoc;
                        returns = extractReturns cfg jsDoc;
                        isAsync = startsWith text ''async''
                    in methods(name \<mapsto>
                         createMethodInfo name (jd_description jsDoc) params returns Function
                           isAsync Public))))"

definition processMethod ::
  "CommentParser \<Rightarrow> ASTParserConfig \<Rightarrow> MethodDeclaration \<Rightarrow> string \<Rightarrow> Methods \<Rightarrow> MethodKind
   \<Rightarrow> Visibility \<Rightarrow> Methods" where
  "processMethod commentParser cfg method className methods methodKind visibility =
     (let name = md_name method;
          fullName = className @ ''.'' @ name;
          jsDoc = parseJSDoc commentParser (md_jsDocs method);
          params = extractParams cfg jsDoc;
          returns = extractReturns cfg jsDoc;
          isAsync = md_isAsync method
      in methods(fullName \<mapsto>
           createMethodInfo fullName (jd_description jsDoc) params returns methodKind isAsync
             visibility))"

definition processPropertyMethod ::
  "CommentParser \<Rightarrow> ASTParserConfig \<Rightarrow> PropertyDeclaration \<Rightarrow> string \<Rightarrow> Methods \<Rightarrow> Methods" where
  "processPropertyMethod commentParser cfg property className methods =
     (let name = pd_name property;
          fullName = className @ ''.'' @ name;
          jsDoc = parseJSDoc commentParser (pd_jsDocs property);
          params = extractParams cfg jsDoc;
          returns = extractReturns cfg jsDoc;
          isAsync = (case pd_initializer property of
                       None \<Rightarrow> False
                     | Some text \<Rightarrow> startsWith text ''async'');
          visibility = visibilityOf (pd_privateKeyword property) (pd_protectedKeyword property)
      in methods(fullName \<mapsto>
           createMethodInfo fullName (jd_description jsDoc) params returns Property isAsync
             visibility))"

text \<open>
  \<^verbatim>\<open>processAccessor\<close>. For a setter the parameter list is built from the first
  declared parameter: its name (\<^verbatim>\<open>'value'\<close> where the name is empty), the text of its
  declared type, and the description of the \<^verbatim>\<open>@param\<close> tag of that name, if any.
\<close>

definition setterParams ::
  "ASTParserConfig \<Rightarrow> JSDocInfo \<Rightarrow> ParameterDeclaration list \<Rightarrow> ParamInfo list" where
  "setterParams cfg jsDoc parameters =
     (case parameters of
        [] \<Rightarrow> []
      | param # _ \<Rightarrow>
          (let paramName = orElse (Some (prm_name param)) ''value'';
               paramType = prm_typeText param;
               paramDescription =
                 (case find (\<lambda>tg. t_tag tg = ''param'' \<and> t_name tg = paramName) (jd_tags jsDoc) of
                    None \<Rightarrow> []
                  | Some tg \<Rightarrow> t_description tg)
           in [\<lparr> p_name = paramName, p_type = parseType cfg paramType,
                  p_description = paramDescription, p_optional = False \<rparr>]))"

definition processAccessor ::
  "CommentParser \<Rightarrow> ASTParserConfig \<Rightarrow> AccessorDeclaration \<Rightarrow> string \<Rightarrow> Methods \<Rightarrow> MethodKind
   \<Rightarrow> Methods" where
  "processAccessor commentParser cfg accessor className methods methodKind =
     (let name = ad_name accessor;
          fullName = className @ ''.'' @ name;
          jsDoc = parseJSDoc commentParser (ad_jsDocs accessor);
          params = (if methodKind = Setter then setterParams cfg jsDoc (ad_parameters accessor)
                    else []);
          returns = (if methodKind = Getter then extractReturns cfg jsDoc else None);
          visibility = visibilityOf (ad_privateKeyword accessor) (ad_protectedKeyword accessor)
      in methods(fullName \<mapsto>
           createMethodInfo fullName (jd_description jsDoc) params returns methodKind False
             visibility))"

text \<open>
  \<^verbatim>\<open>processClassDeclaration\<close>: the constructor step, then one \<^verbatim>\<open>forEach\<close> per kind
  of member, each a left fold over the members in declaration order.
  \<^verbatim>\<open>getStaticMethods()\<close> is the static part of \<^verbatim>\<open>getMethods()\<close>.
\<close>

definition processConstructors ::
  "CommentParser \<Rightarrow> ASTParserConfig \<Rightarrow> ClassDeclaration \<Rightarrow> string \<Rightarrow> Methods \<Rightarrow> Methods" where
  "processConstructors commentParser cfg declaration className methods =
     (case cd_constructors declaration of
        [] \<Rightarrow> methods
      | constructor # _ \<Rightarrow>
          (let jsDoc = parseJSDoc commentParser (ctor_jsDocs constructor);
               params = extractParams cfg jsDoc
           in methods(className @ ''.constructor'' \<mapsto>
                createMethodInfo (className @ ''.constructor'') (jd_description jsDoc) params
                  None Constructor False Public)))"

definition processInstanceMethods ::
  "CommentParser \<Rightarrow> ASTParserConfig \<Rightarrow> ClassDeclaration \<Rightarrow> string \<Rightarrow> Methods \<Rightarrow> Methods" where
  "processInstanceMethods commentParser cfg declaration className methods =
     (if captureInstanceMethods cfg
      then foldl (\<lambda>ms method.
                    if md_isStatic method then ms
                    else processMethod commentParser cfg method className ms Instance
                           (visibilityOf (md_privateKeyword method) (md_protectedKeyword method)))
             methods (cd_methods declaration)
      else methods)"

definition processStaticMethods ::
  "CommentParser \<Rightarrow> ASTParserConfig \<Rightarrow> ClassDeclaration \<Rightarrow> string \<Rightarrow> Methods \<Rightarrow> Methods" where
  "processStaticMethods commentParser cfg declaration className methods =
     (if captureStaticMethods cfg
      then foldl (\<lambda>ms method.
                    processMethod commentParser cfg method className ms Static
                      (visibilityOf (md_privateKeyword method) (md_protectedKeyword method)))
             methods (filter md_isStatic (cd_methods declaration))
      else methods)"

definition processProperties ::
  "CommentParser \<Rightarrow> ASTParserConfig \<Rightarrow> ClassDeclaration \<Rightarrow> string \<Rightarrow> Methods \<Rightarrow> Methods" where
  "processProperties commentParser cfg declaration className methods =
     (if capturePropertyMethods cfg
      then foldl (\<lambda>ms property.
                    (case pd_initializer property of
                       None \<Rightarrow> ms
                     | Some initializerText \<Rightarrow>
                         if includesStr initializerText ''=>'' \<or> includesStr initializerText ''function''
                         then processPropertyMethod commentParser cfg property className ms
                         else ms))
             methods (cd_properties declaration)
      else methods)"

definition processGetters ::
  "CommentParser \<Rightarrow> ASTParserConfig \<Rightarrow> ClassDeclaration \<Rightarrow> string \<Rightarrow> Methods \<Rightarrow> Methods" where
  "processGetters commentParser cfg declaration className methods =
     (if captureGetAccessors cfg
      then foldl (\<lambda>ms getter. processAccessor commentParser cfg getter className ms Getter)
             methods (cd_getAccessors declaration)
      else methods)"

definition processSetters ::
  "CommentParser \<Rightarrow> ASTParserConfig \<Rightarrow> ClassDeclaration \<Rightarrow> string \<Rightarrow> Methods \<Rightarrow> Methods" where
  "processSetters commentParser cfg declaration className methods =
     (if captureSetAccessors cfg
      then foldl (\<lambda>ms setter. processAccessor commentParser cfg setter className ms Setter)
             methods (cd_setAccessors declaration)
      else methods)"

definition processClassDeclaration ::
  "CommentParser \<Rightarrow> ASTParserConfig \<Rightarrow> ClassDeclaration \<Rightarrow> string \<Rightarrow> Methods \<Rightarrow> Methods" where
  "processClassDeclaration commentParser cfg declaration className methods =
     processSetters commentParser cfg declaration className
       (processGetters commentParser cfg declaration className
         (processProperties commentParser cfg declaration className
           (processStaticMethods commentParser cfg declaration className
             (processInstanceMethods commentParser cfg declaration className
               (processConstructors commentParser cfg declaration className methods)))))"

section \<open>The module walker\<close>

record VariableStatement =
  vs_exportKeyword :: bool
  vs_declarations :: "VariableDeclaration list"

text \<open>
  A namespace (\<^verbatim>\<open>ModuleDeclaration\<close> node) with the answers to the calls of
  \<^verbatim>\<open>processNamespaceDeclaration\<close>: its first \<^verbatim>\<open>ModuleBlock\<close> descendant, if any,
  and in it the descendants of the four kinds the walk asks for.
\<close>

datatype ModuleDeclaration = ModuleDeclaration
  (ns_exportKeyword: bool)
  (ns_identifier: "string option")
  (ns_body: "ModuleBlock option")
and ModuleBlock = ModuleBlock
  (mb_functions: "FunctionDeclaration list")
  (mb_classes: "ClassDeclaration list")
  (mb_variableStatements: "VariableStatement list")
  (mb_namespaces: "ModuleDeclaration list")

text \<open>\<^verbatim>\<open>nameIdentifier ? nameIdentifier.getText() : ''\<close>.\<close>

definition identifierText :: "string option \<Rightarrow> string" where
  "identifierText nameIdentifier = (case nameIdentifier of None \<Rightarrow> [] | Some text \<Rightarrow> text)"

definition processNamespaceFunctions ::
  "CommentParser \<Rightarrow> ASTParserConfig \<Rightarrow> FunctionDeclaration list \<Rightarrow> string \<Rightarrow> Methods \<Rightarrow> Methods" where
  "processNamespaceFunctions commentParser cfg functions namespaceName methods =
     foldl (\<lambda>ms funcNode.
              if fd_exportKeyword funcNode
              then processFunctionDeclaration commentParser cfg funcNode ms
                     (Some (namespaceName @ ''.'' @ identifierText (fd_identifier funcNode)))
              else ms)
       methods functions"

definition processNamespaceClasses ::
  "CommentParser \<Rightarrow> ASTParserConfig \<Rightarrow> ClassDeclaration list \<Rightarrow> string \<Rightarrow> Methods \<Rightarrow> Methods" where
  "processNamespaceClasses commentParser cfg classes namespaceName methods =
     foldl (\<lambda>ms clsNode.
              if cd_exportKeyword clsNode
              then processClassDeclaration commentParser cfg clsNode
                     (namespaceName @ ''.'' @ identifierText (cd_identifier clsNode)) ms
              else ms)
       methods classes"

definition processNamespaceVariables ::
  "CommentParser \<Rightarrow> ASTParserConfig \<Rightarrow> VariableStatement list \<Rightarrow> string \<Rightarrow> Methods \<Rightarrow> Methods" where
  "processNamespaceVariables commentParser cfg variableStatements namespaceName methods =
     foldl (\<lambda>ms stmtNode.
              if vs_exportKeyword stmtNode
              then foldl (\<lambda>ms' declaration.
                            processVariableDeclaration commentParser cfg declaration ms'
                              (Some (namespaceName @ ''.'' @ identifierText (vd_identifier declaration))))
                     ms (vs_declarations stmtNode)
              else ms)
       methods variableStatements"

fun processNamespaceDeclaration ::
  "CommentParser \<Rightarrow> ASTParserConfig \<Rightarrow> ModuleDeclaration \<Rightarrow> string \<Rightarrow> Methods \<Rightarrow> Methods" where
  "processNamespaceDeclaration commentParser cfg (ModuleDeclaration ek ident None) namespaceName methods =
     methods"
| "processNamespaceDeclaration commentParser cfg
     (ModuleDeclaration ek ident (Some (ModuleBlock functions classes variableStatements nestedNamespaces)))
     namespaceName methods =
     foldl (\<lambda>ms nestedNode.
              if ns_exportKeyword nestedNode
              then processNamespaceDeclaration commentParser cfg nestedNode
                     (namespaceName @ ''.'' @ identifierText (ns_identifier nestedNode)) ms
              else ms)
       (processNamespaceVariables commentParser cfg variableStatements namespaceName
         (processNamespaceClasses commentParser cfg classes namespaceName
           (processNamespaceFunctions commentParser cfg functions namespaceName methods)))
       nestedNamespaces"

text \<open>Imports and exports, and the records \<^verbatim>\<open>extractImports\<close> and \<^verbatim>\<open>extractExports\<close> build.\<close>

record ImportDeclaration =
  imp_moduleSpecifier :: string
  imp_defaultImport :: "string option"
  imp_namespaceImport :: "string option"
  imp_namedImports :: "string list"

record ExportDeclaration =
  exp_moduleSpecifier :: "string option"
  exp_namedExports :: "string list"
  exp_defaultKeyword :: bool

record ExportAssignment =
  ea_isExportEquals :: bool
  ea_expressionText :: string

record ImportInfo =
  i_moduleName :: string
  i_isDefault :: bool
  i_isNamespace :: bool
  i_namedImports :: "string list"

record ExportInfo =
  e_name :: string
  e_isDefault :: bool
  e_isReexport :: bool
  e_sourceModule :: "string option"

record ModuleInfo =
  mi_name :: string
  mi_description :: string
  mi_fileName :: string
  mi_imports :: "ImportInfo list"
  mi_exports :: "ExportInfo list"

record ParsedModuleResult =
  pr_methods :: Methods
  pr_module :: ModuleInfo

text \<open>
  The source file: its base name and the answers to the calls of \<^verbatim>\<open>parseSourceFile\<close>,
  \<^verbatim>\<open>extractModuleInfo\<close>, \<^verbatim>\<open>extractImports\<close> and \<^verbatim>\<open>extractExports\<close>.
\<close>

record SourceFile =
  sf_baseName :: string
  sf_functions :: "FunctionDeclaration list"
  sf_classes :: "ClassDeclaration list"
  sf_variableDeclarations :: "VariableDeclaration list"
  sf_namespaces :: "ModuleDeclaration list"
  sf_jsDocComments :: "string list"
  sf_importDeclarations :: "ImportDeclaration list"
  sf_exportDeclarations :: "ExportDeclaration list"
  sf_exportAssignments :: "ExportAssignment list"
  sf_exportedDeclarations :: "string list"

text \<open>\<^verbatim>\<open>!!text\<close> for a text that may be \<^verbatim>\<open>undefined\<close>.\<close>

definition truthy :: "string option \<Rightarrow> bool" where
  "truthy text = (case text of None \<Rightarrow> False | Some s \<Rightarrow> s \<noteq> [])"

definition extractImports :: "SourceFile \<Rightarrow> ImportInfo list" where
  "extractImports sourceFile =
     map (\<lambda>importDecl.
            \<lparr> i_moduleName = imp_moduleSpecifier importDecl,
              i_isDefault = truthy (imp_defaultImport importDecl),
              i_isNamespace = truthy (imp_namespaceImport importDecl),
              i_namedImports = imp_namedImports importDecl \<rparr>)
       (sf_importDeclarations sourceFile)"

definition exportsOfDeclaration :: "ExportDeclaration \<Rightarrow> ExportInfo list" where
  "exportsOfDeclaration exportDecl =
     (let moduleSpecifier = exp_moduleSpecifier exportDecl;
          isReexport = truthy moduleSpecifier;
          sourceModule = (if truthy moduleSpecifier then moduleSpecifier else None)
      in if exp_namedExports exportDecl \<noteq> []
         then map (\<lambda>named. \<lparr> e_name = named, e_isDefault = False, e_isReexport = isReexport,
                             e_sourceModule = sourceModule \<rparr>)
                (exp_namedExports exportDecl)
         else if exp_defaultKeyword exportDecl
         then [\<lparr> e_name = ''default'', e_isDefault = True, e_isReexport = isReexport,
                 e_sourceModule = sourceModule \<rparr>]
         else [])"

definition extractExports :: "SourceFile \<Rightarrow> ExportInfo list" where
  "extractExports sourceFile =
     concat (map exportsOfDeclaration (sf_exportDeclarations sourceFile))
     @ map (\<lambda>exportAssign.
              \<lparr> e_name = ea_expressionText exportAssign,
                e_isDefault = (\<not> ea_isExportEquals exportAssign),
                e_isReexport = False, e_sourceModule = None \<rparr>)
         (sf_exportAssignments sourceFile)
     @ map (\<lambda>keyStr. \<lparr> e_name = keyStr, e_isDefault = (keyStr = ''default''),
                        e_isReexport = False, e_sourceModule = None \<rparr>)
         (sf_exportedDeclarations sourceFile)"

text \<open>
  \<^verbatim>\<open>fileName.replace(/\.(ts|js|tsx|jsx)$/, '')\<close>: one of the four extensions is removed
  from the end.
\<close>

definition stripExtension :: "string \<Rightarrow> string" where
  "stripExtension fileName =
     (if endsWith fileName ''.ts'' \<or> endsWith fileName ''.js'' then take (length fileName - 3) fileName
      else if endsWith fileName ''.tsx'' \<or> endsWith fileName ''.jsx''
      then take (length fileName - 4) fileName
      else fileName)"

text \<open>
  One round of the loop of \<^verbatim>\<open>extractModuleInfo\<close> over the comments of the source
  file, on the pair of the variables \<^verbatim>\<open>name\<close> and \<^verbatim>\<open>description\<close>; a throw of the
  comment parser is caught and leaves both as they are.
\<close>

definition moduleInfoStep :: "CommentParser \<Rightarrow> string \<times> string \<Rightarrow> string \<Rightarrow> string \<times> string" where
  "moduleInfoStep commentParser nd jsDocText =
     (case commentParser jsDocText of
        None \<Rightarrow> nd
      | Some parsedComments \<Rightarrow>
          (case parsedComments of
             [] \<Rightarrow> nd
           | parsedComment # _ \<Rightarrow>
               (case find (\<lambda>tg. t_tag tg = ''module'') (b_tags parsedComment) of
                  None \<Rightarrow> (fst nd, b_description parsedComment)
                | Some moduleTag \<Rightarrow>
                    if t_name moduleTag \<noteq> [] then (t_name moduleTag, b_description parsedComment)
                    else (fst nd, b_description parsedComment))))"

definition extractModuleInfo :: "CommentParser \<Rightarrow> SourceFile \<Rightarrow> ModuleInfo" where
  "extractModuleInfo commentParser sourceFile =
     (let fileName = sf_baseName sourceFile;
          nd = foldl (moduleInfoStep commentParser) (stripExtension fileName, [])
                 (sf_jsDocComments sourceFile)
      in \<lparr> mi_name = fst nd, mi_description = snd nd, mi_fileName = fileName,
           mi_imports = extractImports sourceFile, mi_exports = extractExports sourceFile \<rparr>)"

definition parseSourceFile :: "CommentParser \<Rightarrow> ASTParserConfig \<Rightarrow> SourceFile \<Rightarrow> ParsedModuleResult" where
  "parseSourceFile commentParser cfg sourceFile =
     (let m1 = foldl (\<lambda>ms func.
                        if fd_isExported func
                        then processFunctionDeclaration commentParser cfg func ms None else ms)
                 Map.empty (sf_functions sourceFile);
          m2 = foldl (\<lambda>ms cls.
                        if cd_isExported cls
                        then processClassDeclaration commentParser cfg cls (orElse (cd_name cls) []) ms
                        else ms)
                 m1 (sf_classes sourceFile);
          m3 = foldl (\<lambda>ms declaration.
                        if vd_isExported declaration
                        then processVariableDeclaration commentParser cfg declaration ms None else ms)
                 m2 (sf_variableDeclarations sourceFile);
          m4 = foldl (\<lambda>ms namespaceNode.
                        if ns_exportKeyword namespaceNode
                        then processNamespaceDeclaration commentParser cfg namespaceNode
                               (identifierText (ns_identifier namespaceNode)) ms
                        else ms)
                 m3 (sf_namespaces sourceFile)
      in \<lparr> pr_methods = m4, pr_module = extractModuleInfo commentParser sourceFile \<rparr>)"

section \<open>Reading and parsing a module file\<close>

text \<open>
  What \<^verbatim>\<open>parse\<close> takes from outside: the path functions of \<^verbatim>\<open>@std/path\<close> and the
  TypeScript parser behind \<^verbatim>\<open>project.createSourceFile\<close> are parameters, as the
  comment parser is; the working directory and the file system are the state of the
  process. \<open>None\<close> stands for a call that throws.
\<close>

record Libraries =
  lib_commentParser :: CommentParser
  lib_tsParse :: "string \<Rightarrow> SourceFile option"
  lib_isAbsolute :: "string \<Rightarrow> bool"
  lib_join :: "string \<Rightarrow> string \<Rightarrow> string"

record Deno =
  deno_cwd :: string
  deno_readTextFile :: "string \<Rightarrow> string option"

datatype ParseError = ReadTextFileFailed | SourceFileAlreadyExists | CreateSourceFileFailed

text \<open>
  \<^verbatim>\<open>Partial<ASTParserConfig>\<close>, the empty object \<^verbatim>\<open>{}\<close> that is the default of the
  constructor, and the spread \<^verbatim>\<open>{ ...DEFAULT_AST_CONFIG, ...config }\<close>.
\<close>

record PartialASTParserConfig =
  opt_captureInstanceMethods :: "bool option"
  opt_captureStaticMethods :: "bool option"
  opt_capturePropertyMethods :: "bool option"
  opt_captureGetAccessors :: "bool option"
  opt_captureSetAccessors :: "bool option"
  opt_captureArrowFunctions :: "bool option"
  opt_captureComplexTypes :: "bool option"

definition noOverrides :: PartialASTParserConfig where
  "noOverrides =
     \<lparr> opt_captureInstanceMethods = None, opt_captureStaticMethods = None,
       opt_capturePropertyMethods = None, opt_captureGetAccessors = None,
       opt_captureSetAccessors = None, opt_captureArrowFunctions = None,
       opt_captureComplexTypes = None \<rparr>"

definition override :: "bool \<Rightarrow> bool option \<Rightarrow> bool" where
  "override d v = (case v of None \<Rightarrow> d | Some b \<Rightarrow> b)"

definition mergeConfig :: "ASTParserConfig \<Rightarrow> PartialASTParserConfig \<Rightarrow> ASTParserConfig" where
  "mergeConfig d config =
     \<lparr> captureInstanceMethods = override (captureInstanceMethods d) (opt_captureInstanceMethods config),
       captureStaticMethods = override (captureStaticMethods d) (opt_captureStaticMethods config),
       capturePropertyMethods = override (capturePropertyMethods d) (opt_capturePropertyMethods config),
       captureGetAccessors = override (captureGetAccessors d) (opt_captureGetAccessors config),
       captureSetAccessors = override (captureSetAccessors d) (opt_captureSetAccessors config),
       captureArrowFunctions = override (captureArrowFunctions d) (opt_captureArrowFunctions config),
       captureComplexTypes = override (captureComplexTypes d) (opt_captureComplexTypes config) \<rparr>"

text \<open>
  The fields of a \<^verbatim>\<open>ModuleParser\<close>. Of its \<^verbatim>\<open>Project\<close> the model keeps the paths of
  the source files created in it so far; the constructor makes a new, empty one.
\<close>

record ModuleParser =
  mp_filePath :: string
  mp_project :: "string list"
  mp_config :: ASTParserConfig

definition newModuleParser :: "string \<Rightarrow> PartialASTParserConfig \<Rightarrow> ModuleParser" where
  "newModuleParser filePath config =
     \<lparr> mp_filePath = filePath, mp_project = [], mp_config = mergeConfig DEFAULT_AST_CONFIG config \<rparr>"

text \<open>The base name of a path: what follows its last slash.\<close>

definition getBaseName :: "string \<Rightarrow> string" where
  "getBaseName filePath = rev (takeWhile (\<lambda>c. c \<noteq> CHR ''/'') (rev filePath))"

text \<open>
  \<^verbatim>\<open>project.createSourceFile(filePath, text)\<close>, called without the option to
  overwrite: it throws where the project already has a source file at the path;
  otherwise it returns the tree of the text, under the base name of the path, and the
  project holds the path from then on. A file of that name on disk, which the library
  may look for as well, is not part of the model.
\<close>

definition createSourceFile ::
  "Libraries \<Rightarrow> string list \<Rightarrow> string \<Rightarrow> string \<Rightarrow> ParseError + (SourceFile \<times> string list)" where
  "createSourceFile libs project filePath fileContent =
     (if filePath \<in> set project then Inl SourceFileAlreadyExists
      else (case lib_tsParse libs fileContent of
              None \<Rightarrow> Inl CreateSourceFileFailed
            | Some sourceFile \<Rightarrow>
                Inr (sourceFile\<lparr> sf_baseName := getBaseName filePath \<rparr>, filePath # project)))"

definition resolvePath :: "Libraries \<Rightarrow> Deno \<Rightarrow> string \<Rightarrow> string" where
  "resolvePath libs deno filePath =
     (if lib_isAbsolute libs filePath then filePath else lib_join libs (deno_cwd deno) filePath)"

text \<open>
  \<^verbatim>\<open>parse\<close> on a parser: the result, or the error thrown on to the caller, and the
  parser as the call leaves it.
\<close>

definition parse ::
  "Libraries \<Rightarrow> ModuleParser \<Rightarrow> Deno \<Rightarrow> (ParseError + ParsedModuleResult) \<times> ModuleParser" where
  "parse libs parser deno =
     (let absolutePath = resolvePath libs deno (mp_filePath parser)
      in (case deno_readTextFile deno absolutePath of
            None \<Rightarrow> (Inl ReadTextFileFailed, parser)
          | Some fileContent \<Rightarrow>
              (case createSourceFile libs (mp_project parser) ''temp.ts'' fileContent of
                 Inl error \<Rightarrow> (Inl error, parser)
               | Inr (sourceFile, project) \<Rightarrow>
                   (Inr (parseSourceFile (lib_commentParser libs) (mp_config parser) sourceFile),
                    parser\<lparr> mp_project := project \<rparr>))))"

text \<open>
  \<^verbatim>\<open>new ModuleToCLI(filePath).get()\<close>, as \<^verbatim>\<open>parseModule\<close>,
  \<^verbatim>\<open>generateModuleSpecification\<close> and the tests call it: the class adds nothing to
  \<^verbatim>\<open>ModuleParser\<close>, and \<^verbatim>\<open>get\<close> is \<^verbatim>\<open>parse\<close>.
\<close>

definition ModuleToCLI_get :: "Libraries \<Rightarrow> Deno \<Rightarrow> string \<Rightarrow> ParseError + ParsedModuleResult" where
  "ModuleToCLI_get libs deno filePath = fst (parse libs (newModuleParser filePath noOverrides) deno)"

section \<open>The invocation command line\<close>

text \<open>
  \<^verbatim>\<open>main\<close> of \<^verbatim>\<open>main.ts\<close>. The argument parser of \<^verbatim>\<open>@std/cli\<close> is a parameter;
  of the flags object the code reads \<^verbatim>\<open>help\<close>, the positional arguments
  \<^verbatim>\<open>flags._\<close> (as strings) and, with \<^verbatim>\<open>in\<close>, which keys it has.
\<close>

record Flags =
  flag_help :: bool
  flag_positional :: "string list"
  flag_has :: "string \<Rightarrow> bool"

text \<open>
  The specification \<^verbatim>\<open>parseModule\<close> returns: the method map of the parser and the
  module metadata (\<^verbatim>\<open>printSimpleModuleInfo\<close> only renames fields of it); \<open>None\<close> for
  \<^verbatim>\<open>null\<close>, after a failed parse.
\<close>

record ModuleSpec =
  spec_methods :: Methods
  spec_module :: ModuleInfo

definition parseModule :: "Libraries \<Rightarrow> Deno \<Rightarrow> string \<Rightarrow> ModuleSpec option" where
  "parseModule libs deno modulePath =
     (case ModuleToCLI_get libs deno modulePath of
        Inl error \<Rightarrow> None
      | Inr parsedModule \<Rightarrow>
          Some \<lparr> spec_methods = pr_methods parsedModule, spec_module = pr_module parsedModule \<rparr>)"

definition getMissingParams :: "MethodInfo \<Rightarrow> Flags \<Rightarrow> string list" where
  "getMissingParams methodInfo flags =
     map p_name
       (filter (\<lambda>param. \<not> p_optional param \<and> \<not> flag_has flags (p_name param)
                        \<and> \<not> flag_has flags (take 1 (p_name param)))
          (m_params methodInfo))"

text \<open>\<^verbatim>\<open>parts.join(', ')\<close>.\<close>

fun joinComma :: "string list \<Rightarrow> string" where
  "joinComma [] = []"
| "joinComma [s] = s"
| "joinComma (s # t # ts) = s @ '', '' @ joinComma (t # ts)"

definition methodSignature :: "string \<Rightarrow> MethodInfo \<Rightarrow> string" where
  "methodSignature methodName methodInfo =
     ''Method signature: '' @ methodName @ ''('' @
       joinComma (map (\<lambda>p. p_name p @ (if p_optional p then ''?'' else []) @ '': '' @ rawType (p_type p))
                    (m_params methodInfo))
     @ '')''"

text \<open>
  What a run of \<^verbatim>\<open>main\<close> does, in order: the calls that print, that read and parse
  the module file, that import the module and that call into it. The three
  \<^verbatim>\<open>execute...\<close> functions are the only code that calls a function of the imported
  module; the printing of the result follows them.
\<close>

datatype Event =
    PrintMenu
  | CliMain
  | ParseModule string
  | PrintError string
  | PrintMenuForModule
  | ConsoleError string
  | ImportModule string
  | ExecuteFunctionMethod string
  | ExecuteInstanceMethod string
  | ExecuteStaticMethod string

text \<open>
  The dispatch on \<^verbatim>\<open>methodInfo.methodKind\<close> at the end of \<^verbatim>\<open>main\<close>, after a
  successful import.
\<close>

fun methodKindText :: "MethodKind \<Rightarrow> string" where
  "methodKindText Instance = ''instance''"
| "methodKindText Static = ''static''"
| "methodKindText Property = ''property''"
| "methodKindText Getter = ''getter''"
| "methodKindText Setter = ''setter''"
| "methodKindText Function = ''function''"
| "methodKindText Constructor = ''constructor''"

definition dispatch :: "string \<Rightarrow> MethodInfo \<Rightarrow> Event" where
  "dispatch methodName methodInfo =
     (if m_methodKind methodInfo = Function then ExecuteFunctionMethod methodName
      else if m_methodKind methodInfo = Instance then ExecuteInstanceMethod methodName
      else if m_methodKind methodInfo = Static then ExecuteStaticMethod methodName
      else ConsoleError (''Unsupported method kind: '' @ methodKindText (m_methodKind methodInfo)))"

text \<open>
  \<^verbatim>\<open>spec.methods[methodName]\<close> reads a plain object: where the method map has no entry
  of that name, the names of \<^verbatim>\<open>Object.prototype\<close> still give a value, one without a
  \<^verbatim>\<open>visibility\<close> field.
\<close>

definition objectPrototypeNames :: "string list" where
  "objectPrototypeNames =
     [''constructor'', ''hasOwnProperty'', ''isPrototypeOf'', ''propertyIsEnumerable'',
      ''toLocaleString'', ''toString'', ''valueOf'', ''__proto__'', ''__defineGetter__'',
      ''__defineSetter__'', ''__lookupGetter__'', ''__lookupSetter__'']"

datatype Property = Undefined | OwnDescriptor MethodInfo | Inherited

definition getProperty :: "Methods \<Rightarrow> string \<Rightarrow> Property" where
  "getProperty methods name =
     (case methods name of
        Some methodInfo \<Rightarrow> OwnDescriptor methodInfo
      | None \<Rightarrow> if name \<in> set objectPrototypeNames then Inherited else Undefined)"

text \<open>
  \<open>importModule\<close> tells whether the dynamic import of the path succeeds; an empty
  method name is falsy and counts as none given. The loop that
  collects the \<^verbatim>\<open>--constructor.\<close> arguments computes a value for
  \<^verbatim>\<open>executeInstanceMethod\<close> only and is left out.
\<close>

definition main ::
  "Libraries \<Rightarrow> (string list \<Rightarrow> Flags) \<Rightarrow> (string \<Rightarrow> bool) \<Rightarrow> Deno \<Rightarrow> string list \<Rightarrow> Event list" where
  "main libs parseArgs importModule deno args =
     (if args \<noteq> [] \<and> take 1 args = [''generate''] then [CliMain]
      else (let flags = parseArgs args
            in if flag_help flags then [PrintMenu]
               else (case flag_positional flags of
                  [] \<Rightarrow> [PrintMenu]
                | modulePath # rest \<Rightarrow>
                    (case parseModule libs deno modulePath of
                       None \<Rightarrow> [ParseModule modulePath,
                                PrintError (''Failed to parse module: '' @ modulePath)]
                     | Some spec \<Rightarrow>
                         (case rest of
                            [] \<Rightarrow> [ParseModule modulePath, PrintMenuForModule]
                          | methodName # _ \<Rightarrow>
                              if methodName = [] then [ParseModule modulePath, PrintMenuForModule]
                              else (case getProperty (spec_methods spec) methodName of
                                 Undefined \<Rightarrow> [ParseModule modulePath,
                                          ConsoleError (''Method not found: '' @ methodName),
                                          PrintMenuForModule]
                               | Inherited \<Rightarrow>
                                   [ParseModule modulePath,
                                    ConsoleError (''Method '' @ methodName @ '' is not public'')]
                               | OwnDescriptor methodInfo \<Rightarrow>
                                   if m_visibility methodInfo \<noteq> Public
                                   then [ParseModule modulePath,
                                         ConsoleError (''Method '' @ methodName @ '' is not public'')]
                                   else if getMissingParams methodInfo flags \<noteq> []
                                   then [ParseModule modulePath,
                                         ConsoleError (''Error: Missing required parameters: ''
                                            @ joinComma (getMissingParams methodInfo flags)),
                                         ConsoleError (methodSignature methodName methodInfo)]
                                   else if \<not> importModule modulePath
                                   then [ParseModule modulePath, ImportModule modulePath,
                                         PrintError (''Failed to import module: '' @ modulePath)]
                                   else [ParseModule modulePath, ImportModule modulePath,
                                         dispatch methodName methodInfo]))))))"

text \<open>The events that import the target module or call into it.\<close>

fun invokes :: "Event \<Rightarrow> bool" where
  "invokes (ImportModule p) = True"
| "invokes (ExecuteFunctionMethod n) = True"
| "invokes (ExecuteInstanceMethod n) = True"
| "invokes (ExecuteStaticMethod n) = True"
| "invokes e = False"

section \<open>Example inputs\<close>

text \<open>A comment parser and a setter to evaluate the classifier on.\<close>

definition noBlocks :: CommentParser where
  "noBlocks text = Some []"

definition undocumentedSetter :: AccessorDeclaration where
  "undocumentedSetter =
     \<lparr> ad_name = ''level'',
       ad_parameters = [\<lparr> prm_name = ''v'', prm_typeText = ''number'' \<rparr>],
       ad_privateKeyword = False, ad_protectedKeyword = False, ad_jsDocs = [] \<rparr>"


text \<open>A class with a constructor, a private method and a setter, and one with a getter named as the constructor is.\<close>

definition unlockMethod :: MethodDeclaration where
  "unlockMethod =
     \<lparr> md_name = ''unlock'', md_isStatic = False, md_isAsync = False,
       md_privateKeyword = True, md_protectedKeyword = False, md_jsDocs = [] \<rparr>"

definition vaultClass :: ClassDeclaration where
  "vaultClass =
     \<lparr> cd_name = Some ''Vault'', cd_isExported = True,
       cd_constructors = [\<lparr> ctor_jsDocs = [] \<rparr>],
       cd_methods = [unlockMethod],
       cd_properties = [], cd_getAccessors = [], cd_setAccessors = [undocumentedSetter],
       cd_exportKeyword = True, cd_identifier = Some ''Vault'' \<rparr>"

definition accessorNamedConstructor :: ClassDeclaration where
  "accessorNamedConstructor =
     \<lparr> cd_name = Some ''Gauge'', cd_isExported = True,
       cd_constructors = [\<lparr> ctor_jsDocs = [] \<rparr>],
       cd_methods = [], cd_properties = [],
       cd_getAccessors = [\<lparr> ad_name = ''constructor'', ad_parameters = [],
                              ad_privateKeyword = False, ad_protectedKeyword = False,
                              ad_jsDocs = [] \<rparr>],
       cd_setAccessors = [],
       cd_exportKeyword = True, cd_identifier = Some ''Gauge'' \<rparr>"

text \<open>
  A source file in which the class \<^verbatim>\<open>Gauge\<close> is merged with a namespace of the same
  name that exports a function named \<^verbatim>\<open>constructor\<close>.
\<close>

definition mergedSource :: SourceFile where
  "mergedSource =
     \<lparr> sf_baseName = ''temp.ts'', sf_functions = [],
       sf_classes = [\<lparr> cd_name = Some ''Gauge'', cd_isExported = True,
                       cd_constructors = [\<lparr> ctor_jsDocs = [] \<rparr>],
                       cd_methods = [], cd_properties = [], cd_getAccessors = [],
                       cd_setAccessors = [], cd_exportKeyword = True,
                       cd_identifier = Some ''Gauge'' \<rparr>],
       sf_variableDeclarations = [],
       sf_namespaces =
         [ModuleDeclaration True (Some ''Gauge'')
            (Some (ModuleBlock
               [\<lparr> fd_name = Some ''constructor'', fd_isExported = True, fd_isAsync = False,
                   fd_jsDocs = [], fd_exportKeyword = True, fd_identifier = Some ''constructor'' \<rparr>]
               [] [] []))],
       sf_jsDocComments = [], sf_importDeclarations = [], sf_exportDeclarations = [],
       sf_exportAssignments = [], sf_exportedDeclarations = [''Gauge''] \<rparr>"

text \<open>
  A comment parser that throws on one malformed comment and one that returns the tag of
  a malformed comment with an error in it, a function for each; libraries whose
  TypeScript parser yields a file with the class \<open>vaultClass\<close> and one documented
  function, and two processes that hold the same text under different paths.
\<close>

definition throwsOnMalformed :: CommentParser where
  "throwsOnMalformed text = (if text = ''/** @param {'' then None else Some [])"



definition malformedFunction :: FunctionDeclaration where
  "malformedFunction =
     \<lparr> fd_name = Some ''seal'', fd_isExported = True, fd_isAsync = False,
       fd_jsDocs = [''/** @param {''], fd_exportKeyword = True, fd_identifier = Some ''seal'' \<rparr>"

definition vaultSource :: SourceFile where
  "vaultSource =
     \<lparr> sf_baseName = ''vault.ts'', sf_functions = [malformedFunction], sf_classes = [vaultClass],
       sf_variableDeclarations = [], sf_namespaces = [], sf_jsDocComments = [],
       sf_importDeclarations = [], sf_exportDeclarations = [], sf_exportAssignments = [],
       sf_exportedDeclarations = [''seal'', ''Vault''] \<rparr>"

definition vaultLibraries :: Libraries where
  "vaultLibraries =
     \<lparr> lib_commentParser = throwsOnMalformed,
       lib_tsParse = (\<lambda>text. Some vaultSource),
       lib_isAbsolute = (\<lambda>path. startsWith path ''/''),
       lib_join = (\<lambda>dir path. dir @ ''/'' @ path) \<rparr>"

definition projectDeno :: Deno where
  "projectDeno =
     \<lparr> deno_cwd = ''/proj'',
       deno_readTextFile = (\<lambda>path. if path = ''/proj/vault.ts'' then Some ''export class Vault {}''
                                    else None) \<rparr>"


text \<open>Flags that hold the arguments as positional ones, and an import that succeeds.\<close>

definition positionalFlags :: "string list \<Rightarrow> Flags" where
  "positionalFlags args = \<lparr> flag_help = False, flag_positional = args, flag_has = (\<lambda>key. False) \<rparr>"

definition alwaysImports :: "string \<Rightarrow> bool" where
  "alwaysImports modulePath = True"


text \<open>
  \<open>onlyNewConstructorAt key before after\<close>: every constructor descriptor of the map
  \<open>after\<close> sits at \<open>key\<close> or was in \<open>before\<close> already.
\<close>

definition onlyNewConstructorAt :: "string \<Rightarrow> Methods \<Rightarrow> Methods \<Rightarrow> bool" where
  "onlyNewConstructorAt key before after =
     (\<forall>k mi. after k = Some mi \<and> m_methodKind mi = Constructor \<longrightarrow> k = key \<or> before k = Some mi)"

section \<open>Properties of the type normalizer\<close>

text \<open>
  C1. For every configuration and every type string \<open>T\<close>, the descriptor that
  \<^verbatim>\<open>parseType\<close> returns has \<open>rawType\<close> equal to \<open>T\<close>, whichever branch matched.
\<close>

theorem parseType_rawType: "rawType (parseType cfg T) = T"
  by (subst parseType.simps) (simp add: rawType_parseType_match)

text \<open>
  C5. Under the default configuration \<^verbatim>\<open>A<B<C>>\<close> is normalized to a generic over
  \<^verbatim>\<open>A\<close> with exactly one type argument, itself the generic \<^verbatim>\<open>B<C>\<close> with base type
  \<^verbatim>\<open>B\<close> and the single argument \<^verbatim>\<open>C\<close>; the argument splitter keeps \<^verbatim>\<open>B<C>\<close>
  in one piece, and splits at a comma only outside angle brackets.
\<close>

theorem parseType_nested_generic:
  "parseType DEFAULT_AST_CONFIG ''A<B<C>>'' =
     TypeInfo ''A''
       (Some [TypeInfo ''B'' (Some [TypeInfo ''C'' None None None False False ''C''])
                None None False False ''B<C>''])
       None None False False ''A<B<C>>''
   \<and> splitGenericArgs ''B<C>'' = [''B<C>'']
   \<and> splitGenericArgs ''B<C, D>, E'' = [''B<C, D>'', ''E'']"
  by code_simp

text \<open>
  C6. Under the default configuration \<^verbatim>\<open>string[]\<close> and \<^verbatim>\<open>Array<string>\<close> are both
  normalized to base type \<^verbatim>\<open>Array\<close> with exactly one type argument, of base type
  \<^verbatim>\<open>string\<close>; the two descriptors differ in \<open>rawType\<close> only.
\<close>

theorem parseType_array_spellings:
  "parseType DEFAULT_AST_CONFIG ''string[]'' =
     TypeInfo ''Array'' (Some [TypeInfo ''string'' None None None False False ''string''])
       None None False False ''string[]''
   \<and> parseType DEFAULT_AST_CONFIG ''Array<string>'' =
     TypeInfo ''Array'' (Some [TypeInfo ''string'' None None None False False ''string''])
       None None False False ''Array<string>''"
  by code_simp

















section \<open>Properties of the member classifier\<close>

lemma parseJSDoc_Nil: "parseJSDoc cp [] = emptyJSDoc"
  by (simp add: parseJSDoc_def)

lemma emptyJSDoc_sel: "jd_description emptyJSDoc = []" "jd_tags emptyJSDoc = []"
  by (simp_all add: emptyJSDoc_def)

lemma extractParams_empty: "extractParams cfg emptyJSDoc = []"
  by (simp add: extractParams_def emptyJSDoc_def)




lemma processConstructors_entry:
  assumes "cd_constructors c = ctor # others"
  shows "processConstructors cp cfg c cn ms (cn @ ''.constructor'') =
     Some (createMethodInfo (cn @ ''.constructor'')
             (jd_description (parseJSDoc cp (ctor_jsDocs ctor)))
             (extractParams cfg (parseJSDoc cp (ctor_jsDocs ctor)))
             None Constructor False Public)"
  using assms by (simp add: processConstructors_def Let_def)





lemma createMethodInfo_sel [simp]:
  "m_name (createMethodInfo n d ps r k a v) = n"
  "m_description (createMethodInfo n d ps r k a v) = d"
  "m_params (createMethodInfo n d ps r k a v) = ps"
  "m_returns (createMethodInfo n d ps r k a v) = r"
  "m_methodKind (createMethodInfo n d ps r k a v) = k"
  "m_isAsync (createMethodInfo n d ps r k a v) = a"
  "m_visibility (createMethodInfo n d ps r k a v) = v"
  by (simp_all add: createMethodInfo_def)




text \<open>A left fold leaves a key alone when each of its steps does.\<close>

lemma foldl_key_unchanged:
  assumes "\<And>m x. x \<in> set xs \<Longrightarrow> f m x k = m k"
  shows "foldl f m xs k = m k"
  using assms by (induction xs arbitrary: m) simp_all

lemma foldl_invariant:
  assumes "P m" and "\<And>m x. P m \<Longrightarrow> P (f m x)"
  shows "P (foldl f m xs)"
  using assms by (induction xs arbitrary: m) simp_all

lemma qualified_key_eq: "(cn @ ''.constructor'' = cn @ ''.'' @ n) = (n = ''constructor'')"
  by auto

lemma processMethod_other_key:
  "md_name m \<noteq> ''constructor'' \<Longrightarrow>
   processMethod cp cfg m cn ms kind vis (cn @ ''.constructor'') = ms (cn @ ''.constructor'')"
  using qualified_key_eq[of cn "md_name m"]
  by (simp add: processMethod_def Let_def del: append.simps append_Cons append_Nil)

lemma processPropertyMethod_other_key:
  "pd_name p \<noteq> ''constructor'' \<Longrightarrow>
   processPropertyMethod cp cfg p cn ms (cn @ ''.constructor'') = ms (cn @ ''.constructor'')"
  using qualified_key_eq[of cn "pd_name p"]
  by (simp add: processPropertyMethod_def Let_def del: append.simps append_Cons append_Nil)

lemma processAccessor_other_key:
  "ad_name a \<noteq> ''constructor'' \<Longrightarrow>
   processAccessor cp cfg a cn ms kind (cn @ ''.constructor'') = ms (cn @ ''.constructor'')"
  using qualified_key_eq[of cn "ad_name a"]
  by (simp add: processAccessor_def Let_def del: append.simps append_Cons append_Nil)

lemma processInstanceMethods_other_key:
  assumes "''constructor'' \<notin> md_name ` set (cd_methods c)"
  shows "processInstanceMethods cp cfg c cn ms (cn @ ''.constructor'') = ms (cn @ ''.constructor'')"
proof -
  have n: "md_name x \<noteq> ''constructor''" if "x \<in> set (cd_methods c)" for x
    using assms that by (metis imageI)
  show ?thesis
    unfolding processInstanceMethods_def
    by (auto intro!: foldl_key_unchanged simp: processMethod_other_key n)
qed

lemma processStaticMethods_other_key:
  assumes "''constructor'' \<notin> md_name ` set (cd_methods c)"
  shows "processStaticMethods cp cfg c cn ms (cn @ ''.constructor'') = ms (cn @ ''.constructor'')"
proof -
  have n: "md_name x \<noteq> ''constructor''" if "x \<in> set (cd_methods c)" for x
    using assms that by (metis imageI)
  show ?thesis
    unfolding processStaticMethods_def
    by (auto intro!: foldl_key_unchanged simp: processMethod_other_key n)
qed

lemma processProperties_other_key:
  assumes "''constructor'' \<notin> pd_name ` set (cd_properties c)"
  shows "processProperties cp cfg c cn ms (cn @ ''.constructor'') = ms (cn @ ''.constructor'')"
proof -
  have n: "pd_name x \<noteq> ''constructor''" if "x \<in> set (cd_properties c)" for x
    using assms that by (metis imageI)
  show ?thesis
    unfolding processProperties_def
    by (auto intro!: foldl_key_unchanged simp: processPropertyMethod_other_key n split: option.splits)
qed

lemma processGetters_other_key:
  assumes "''constructor'' \<notin> ad_name ` set (cd_getAccessors c)"
  shows "processGetters cp cfg c cn ms (cn @ ''.constructor'') = ms (cn @ ''.constructor'')"
proof -
  have n: "ad_name x \<noteq> ''constructor''" if "x \<in> set (cd_getAccessors c)" for x
    using assms that by (metis imageI)
  show ?thesis
    unfolding processGetters_def
    by (auto intro!: foldl_key_unchanged simp: processAccessor_other_key n)
qed

lemma processSetters_other_key:
  assumes "''constructor'' \<notin> ad_name ` set (cd_setAccessors c)"
  shows "processSetters cp cfg c cn ms (cn @ ''.constructor'') = ms (cn @ ''.constructor'')"
proof -
  have n: "ad_name x \<noteq> ''constructor''" if "x \<in> set (cd_setAccessors c)" for x
    using assms that by (metis imageI)
  show ?thesis
    unfolding processSetters_def
    by (auto intro!: foldl_key_unchanged simp: processAccessor_other_key n)
qed

lemma onlyNew_update:
  assumes "onlyNewConstructorAt key before m" "m_methodKind mi \<noteq> Constructor \<or> k = key"
  shows "onlyNewConstructorAt key before (m(k \<mapsto> mi))"
  using assms unfolding onlyNewConstructorAt_def by auto

lemma processMethod_onlyNew:
  "onlyNewConstructorAt key before m \<Longrightarrow> kind \<noteq> Constructor \<Longrightarrow>
   onlyNewConstructorAt key before (processMethod cp cfg md cn m kind vis)"
  unfolding processMethod_def Let_def by (rule onlyNew_update) simp_all

lemma processPropertyMethod_onlyNew:
  "onlyNewConstructorAt key before m \<Longrightarrow>
   onlyNewConstructorAt key before (processPropertyMethod cp cfg pd cn m)"
  unfolding processPropertyMethod_def Let_def by (rule onlyNew_update) simp_all

lemma processAccessor_onlyNew:
  "onlyNewConstructorAt key before m \<Longrightarrow> kind \<noteq> Constructor \<Longrightarrow>
   onlyNewConstructorAt key before (processAccessor cp cfg ad cn m kind)"
  unfolding processAccessor_def Let_def by (rule onlyNew_update) simp_all

lemma processConstructors_onlyNew:
  "onlyNewConstructorAt (cn @ ''.constructor'') ms (processConstructors cp cfg c cn ms)"
  unfolding processConstructors_def Let_def onlyNewConstructorAt_def
  by (auto split: list.splits)

lemma processClassDeclaration_onlyNew:
  "onlyNewConstructorAt (cn @ ''.constructor'') ms (processClassDeclaration cp cfg c cn ms)"
proof -
  let ?P = "onlyNewConstructorAt (cn @ ''.constructor'') ms"
  have 0: "?P (processConstructors cp cfg c cn ms)" by (rule processConstructors_onlyNew)
  have 1: "?P (processInstanceMethods cp cfg c cn m)" if "?P m" for m
    unfolding processInstanceMethods_def using that
    by (auto intro!: foldl_invariant[where P = ?P] processMethod_onlyNew)
  have 2: "?P (processStaticMethods cp cfg c cn m)" if "?P m" for m
    unfolding processStaticMethods_def using that
    by (auto intro!: foldl_invariant[where P = ?P] processMethod_onlyNew)
  have 3: "?P (processProperties cp cfg c cn m)" if "?P m" for m
    unfolding processProperties_def using that
    by (auto intro!: foldl_invariant[where P = ?P] processPropertyMethod_onlyNew
             split: option.splits)
  have 4: "?P (processGetters cp cfg c cn m)" if "?P m" for m
    unfolding processGetters_def using that
    by (auto intro!: foldl_invariant[where P = ?P] processAccessor_onlyNew)
  have 5: "?P (processSetters cp cfg c cn m)" if "?P m" for m
    unfolding processSetters_def using that
    by (auto intro!: foldl_invariant[where P = ?P] processAccessor_onlyNew)
  show ?thesis
    unfolding processClassDeclaration_def by (intro 5 4 3 2 1 0)
qed

text \<open>
  C7, as the code has it. For a class with at least one constructor and no method,
  property or accessor named \<^verbatim>\<open>constructor\<close>, \<^verbatim>\<open>processClassDeclaration\<close> leaves at
  the key \<^verbatim>\<open><ClassName>.constructor\<close> the descriptor of the first declared constructor,
  of kind \<^verbatim>\<open>constructor\<close>, with null return info; and for every class, each
  constructor descriptor of the resulting map is at that key or was in the map before.
\<close>

theorem constructor_descriptor:
  assumes "cd_constructors c = ctor # others"
    and "''constructor'' \<notin> md_name ` set (cd_methods c)"
    and "''constructor'' \<notin> pd_name ` set (cd_properties c)"
    and "''constructor'' \<notin> ad_name ` set (cd_getAccessors c)"
    and "''constructor'' \<notin> ad_name ` set (cd_setAccessors c)"
  shows "processClassDeclaration cp cfg c cn ms (cn @ ''.constructor'') =
           Some (createMethodInfo (cn @ ''.constructor'')
                   (jd_description (parseJSDoc cp (ctor_jsDocs ctor)))
                   (extractParams cfg (parseJSDoc cp (ctor_jsDocs ctor)))
                   None Constructor False Public)
         \<and> (\<forall>k mi. processClassDeclaration cp cfg c cn ms k = Some mi
                    \<and> m_methodKind mi = Constructor
                  \<longrightarrow> k = cn @ ''.constructor'' \<or> ms k = Some mi)"
proof
  show "processClassDeclaration cp cfg c cn ms (cn @ ''.constructor'') =
           Some (createMethodInfo (cn @ ''.constructor'')
                   (jd_description (parseJSDoc cp (ctor_jsDocs ctor)))
                   (extractParams cfg (parseJSDoc cp (ctor_jsDocs ctor)))
                   None Constructor False Public)"
    unfolding processClassDeclaration_def
    by (simp only: processSetters_other_key[OF assms(5)] processGetters_other_key[OF assms(4)]
          processProperties_other_key[OF assms(3)] processStaticMethods_other_key[OF assms(2)]
          processInstanceMethods_other_key[OF assms(2)] processConstructors_entry[OF assms(1)])
  show "\<forall>k mi. processClassDeclaration cp cfg c cn ms k = Some mi
                  \<and> m_methodKind mi = Constructor
                \<longrightarrow> k = cn @ ''.constructor'' \<or> ms k = Some mi"
    using processClassDeclaration_onlyNew[of cn ms cp cfg c]
    unfolding onlyNewConstructorAt_def .
qed

theorem constructor_descriptor_witness:
  "cd_constructors vaultClass = [\<lparr> ctor_jsDocs = [] \<rparr>]
   \<and> ''constructor'' \<notin> md_name ` set (cd_methods vaultClass)
   \<and> ''constructor'' \<notin> pd_name ` set (cd_properties vaultClass)
   \<and> ''constructor'' \<notin> ad_name ` set (cd_getAccessors vaultClass)
   \<and> ''constructor'' \<notin> ad_name ` set (cd_setAccessors vaultClass)
   \<and> processClassDeclaration noBlocks DEFAULT_AST_CONFIG vaultClass ''Vault'' Map.empty
        ''Vault.constructor'' =
      Some \<lparr> m_name = ''Vault.constructor'', m_description = [], m_params = [],
             m_returns = None, m_methodKind = Constructor, m_isAsync = False,
             m_visibility = Public \<rparr>"
proof -
  have h1: "cd_constructors vaultClass = \<lparr> ctor_jsDocs = [] \<rparr> # []"
    by (simp add: vaultClass_def)
  have h2: "''constructor'' \<notin> md_name ` set (cd_methods vaultClass)"
    by (simp add: vaultClass_def unlockMethod_def)
  have h3: "''constructor'' \<notin> pd_name ` set (cd_properties vaultClass)"
    by (simp add: vaultClass_def)
  have h4: "''constructor'' \<notin> ad_name ` set (cd_getAccessors vaultClass)"
    by (simp add: vaultClass_def)
  have h5: "''constructor'' \<notin> ad_name ` set (cd_setAccessors vaultClass)"
    by (simp add: vaultClass_def undocumentedSetter_def)
  from constructor_descriptor[OF h1 h2 h3 h4 h5, of noBlocks DEFAULT_AST_CONFIG "''Vault''" Map.empty]
    h1 h2 h3 h4 h5
  show ?thesis
    by (simp add: parseJSDoc_Nil extractParams_empty emptyJSDoc_sel createMethodInfo_def)
qed

text \<open>
  C7 as the specification words it fails on a class that declares a constructor and a
  get accessor named \<^verbatim>\<open>constructor\<close>: the accessor is processed later and takes the
  key, so the map holds a getter descriptor there and no constructor descriptor.
\<close>

theorem constructor_key_overwritten_counterexample:
  "cd_constructors accessorNamedConstructor = [\<lparr> ctor_jsDocs = [] \<rparr>]
   \<and> map_option m_methodKind
       (processClassDeclaration noBlocks DEFAULT_AST_CONFIG accessorNamedConstructor ''Gauge''
          Map.empty ''Gauge.constructor'') = Some Getter"
  by (simp add: accessorNamedConstructor_def processClassDeclaration_def processConstructors_def
        processInstanceMethods_def processStaticMethods_def processProperties_def
        processGetters_def processSetters_def processAccessor_def DEFAULT_AST_CONFIG_def
        Let_def createMethodInfo_def)

section \<open>Properties of the walk, of parsing and of the command line\<close>

text \<open>
  The walk is last-wins across declarations too: the function \<^verbatim>\<open>constructor\<close> of a
  namespace merged with the class \<^verbatim>\<open>Gauge\<close> is processed after the class and takes the
  key of its constructor.
\<close>

lemma merged_namespace_takes_constructor_key:
  "map_option m_methodKind
     (pr_methods (parseSourceFile noBlocks DEFAULT_AST_CONFIG mergedSource) ''Gauge.constructor'') =
   Some Function"
  by (simp add: parseSourceFile_def mergedSource_def processClassDeclaration_def
        processConstructors_def processInstanceMethods_def processStaticMethods_def
        processProperties_def processGetters_def processSetters_def
        processNamespaceFunctions_def processNamespaceClasses_def processNamespaceVariables_def
        processFunctionDeclaration_def identifierText_def orElse_def createMethodInfo_def
        DEFAULT_AST_CONFIG_def Let_def)

lemma getBaseName_temp: "getBaseName ''temp.ts'' = ''temp.ts''"
  by code_simp

lemma stripExtension_temp: "stripExtension ''temp.ts'' = ''temp''"
  by code_simp

lemma mergeConfig_noOverrides: "mergeConfig d noOverrides = d"
  by (simp add: mergeConfig_def noOverrides_def override_def)

text \<open>A parse on a parser whose project has no \<^verbatim>\<open>temp.ts\<close> yet, and one on a parser whose project has.\<close>

lemma parse_read:
  assumes "deno_readTextFile deno (resolvePath libs deno (mp_filePath ps)) = Some content"
    and "lib_tsParse libs content = Some sf"
    and "''temp.ts'' \<notin> set (mp_project ps)"
  shows "parse libs ps deno =
           (Inr (parseSourceFile (lib_commentParser libs) (mp_config ps)
                   (sf\<lparr> sf_baseName := ''temp.ts'' \<rparr>)),
            ps\<lparr> mp_project := ''temp.ts'' # mp_project ps \<rparr>)"
  using assms by (simp add: parse_def createSourceFile_def getBaseName_temp)


lemma ModuleToCLI_get_read:
  assumes "deno_readTextFile deno (resolvePath libs deno filePath) = Some content"
    and "lib_tsParse libs content = Some sf"
  shows "ModuleToCLI_get libs deno filePath =
           Inr (parseSourceFile (lib_commentParser libs) DEFAULT_AST_CONFIG
                  (sf\<lparr> sf_baseName := ''temp.ts'' \<rparr>))"
  unfolding ModuleToCLI_get_def
  by (subst parse_read[where content = content and sf = sf])
     (simp_all add: assms newModuleParser_def mergeConfig_noOverrides)























lemma projectDeno_read:
  "deno_readTextFile projectDeno (resolvePath vaultLibraries projectDeno ''vault.ts'') =
     Some ''export class Vault {}''"
  by (simp add: projectDeno_def vaultLibraries_def resolvePath_def startsWith_def)


lemma vaultLibraries_tsParse: "lib_tsParse vaultLibraries content = Some vaultSource"
  by (simp add: vaultLibraries_def)

lemma vaultLibraries_commentParser: "lib_commentParser vaultLibraries = throwsOnMalformed"
  by (simp add: vaultLibraries_def)

lemma newModuleParser_sel:
  "mp_filePath (newModuleParser p config) = p"
  "mp_project (newModuleParser p config) = []"
  "mp_config (newModuleParser p config) = mergeConfig DEFAULT_AST_CONFIG config"
  by (simp_all add: newModuleParser_def)



text \<open>
  What \<^verbatim>\<open>extractModuleInfo\<close> does with the base name it is given: the file name is
  the base name, and with no module-level comment the name is the base name without
  its extension.
\<close>

lemma extractModuleInfo_default:
  "mi_fileName (extractModuleInfo cp sf) = sf_baseName sf
   \<and> (sf_jsDocComments sf = [] \<longrightarrow> mi_name (extractModuleInfo cp sf) = stripExtension (sf_baseName sf))"
  by (simp add: extractModuleInfo_def Let_def)

text \<open>
  C3 against the code. \<^verbatim>\<open>parse\<close> creates the source file under the fixed path
  \<^verbatim>\<open>temp.ts\<close>, so for every input path and every parser that has not parsed yet the
  file name of the module descriptor is \<^verbatim>\<open>temp.ts\<close>, and the name, where no
  module-level comment overrides it, is \<^verbatim>\<open>temp\<close>: neither is taken from the input
  file's base name.
\<close>

theorem parsed_module_name_is_temp:
  assumes "deno_readTextFile deno (resolvePath libs deno (mp_filePath ps)) = Some content"
    and "lib_tsParse libs content = Some sf"
    and "''temp.ts'' \<notin> set (mp_project ps)"
  shows "\<exists>r. fst (parse libs ps deno) = Inr r
           \<and> mi_fileName (pr_module r) = ''temp.ts''
           \<and> (sf_jsDocComments sf = [] \<longrightarrow> mi_name (pr_module r) = ''temp'')"
proof -
  let ?sf = "sf\<lparr> sf_baseName := ''temp.ts'' \<rparr>"
  have p: "fst (parse libs ps deno) = Inr (parseSourceFile (lib_commentParser libs) (mp_config ps) ?sf)"
    using parse_read[OF assms] by simp
  have m: "pr_module (parseSourceFile (lib_commentParser libs) (mp_config ps) ?sf) =
             extractModuleInfo (lib_commentParser libs) ?sf"
    by (simp add: parseSourceFile_def Let_def)
  from extractModuleInfo_default[of "lib_commentParser libs" ?sf]
  have "mi_fileName (extractModuleInfo (lib_commentParser libs) ?sf) = ''temp.ts''"
    and "sf_jsDocComments sf = [] \<longrightarrow> mi_name (extractModuleInfo (lib_commentParser libs) ?sf) = ''temp''"
    by (simp_all add: stripExtension_temp)
  with p m show ?thesis by simp
qed

theorem parsed_module_name_is_temp_witness:
  "deno_readTextFile projectDeno
     (resolvePath vaultLibraries projectDeno (mp_filePath (newModuleParser ''vault.ts'' noOverrides))) =
     Some ''export class Vault {}''
   \<and> lib_tsParse vaultLibraries ''export class Vault {}'' = Some vaultSource
   \<and> ''temp.ts'' \<notin> set (mp_project (newModuleParser ''vault.ts'' noOverrides))
   \<and> sf_jsDocComments vaultSource = []
   \<and> getBaseName (resolvePath vaultLibraries projectDeno ''vault.ts'') = ''vault.ts''
   \<and> stripExtension ''vault.ts'' = ''vault''
   \<and> (\<exists>r. fst (parse vaultLibraries (newModuleParser ''vault.ts'' noOverrides) projectDeno) = Inr r
           \<and> mi_fileName (pr_module r) = ''temp.ts''
           \<and> mi_name (pr_module r) = ''temp'')"
proof -
  have p: "deno_readTextFile projectDeno
             (resolvePath vaultLibraries projectDeno (mp_filePath (newModuleParser ''vault.ts'' noOverrides))) =
           Some ''export class Vault {}''"
    and n: "''temp.ts'' \<notin> set (mp_project (newModuleParser ''vault.ts'' noOverrides))"
    by (simp_all add: newModuleParser_sel projectDeno_read)
  have j: "sf_jsDocComments vaultSource = []" by (simp add: vaultSource_def)
  have r: "resolvePath vaultLibraries projectDeno ''vault.ts'' = ''/proj/vault.ts''"
    by (simp add: projectDeno_def vaultLibraries_def resolvePath_def startsWith_def)
  have b: "getBaseName ''/proj/vault.ts'' = ''vault.ts''" by code_simp
  have s: "stripExtension ''vault.ts'' = ''vault''" by code_simp
  from parsed_module_name_is_temp[OF p vaultLibraries_tsParse n] p n j r b s vaultLibraries_tsParse
  show ?thesis by simp
qed




lemma vault_unlock_private:
  "\<exists>mi. pr_methods (parseSourceFile throwsOnMalformed DEFAULT_AST_CONFIG
                      (vaultSource\<lparr> sf_baseName := ''temp.ts'' \<rparr>)) ''Vault.unlock'' = Some mi
        \<and> m_visibility mi = Private"
  by (simp add: parseSourceFile_def vaultSource_def vaultClass_def unlockMethod_def malformedFunction_def
        undocumentedSetter_def processFunctionDeclaration_def processClassDeclaration_def
        processConstructors_def processInstanceMethods_def processStaticMethods_def
        processProperties_def processGetters_def processSetters_def processMethod_def
        processAccessor_def DEFAULT_AST_CONFIG_def visibilityOf_def orElse_def Let_def)

text \<open>
  A method name that is no key of the method map but a property every object inherits,
  such as \<^verbatim>\<open>toString\<close>, is found by \<^verbatim>\<open>spec.methods[methodName]\<close> and refused as
  not public; a name that is neither is reported as not found.
\<close>

lemma main_inherited_property:
  "main vaultLibraries positionalFlags alwaysImports projectDeno [''vault.ts'', ''toString''] =
     [ParseModule ''vault.ts'', ConsoleError ''Method toString is not public'']
   \<and> main vaultLibraries positionalFlags alwaysImports projectDeno [''vault.ts'', ''open''] =
     [ParseModule ''vault.ts'', ConsoleError ''Method not found: open'', PrintMenuForModule]"
proof -
  have p: "ModuleToCLI_get vaultLibraries projectDeno ''vault.ts'' =
             Inr (parseSourceFile throwsOnMalformed DEFAULT_AST_CONFIG
                    (vaultSource\<lparr> sf_baseName := ''temp.ts'' \<rparr>))"
    using ModuleToCLI_get_read[OF projectDeno_read vaultLibraries_tsParse]
    by (simp add: vaultLibraries_commentParser)
  have n: "pr_methods (parseSourceFile throwsOnMalformed DEFAULT_AST_CONFIG
                      (vaultSource\<lparr> sf_baseName := ''temp.ts'' \<rparr>)) ''toString'' = None"
    "pr_methods (parseSourceFile throwsOnMalformed DEFAULT_AST_CONFIG
                      (vaultSource\<lparr> sf_baseName := ''temp.ts'' \<rparr>)) ''open'' = None"
    by (simp_all add: parseSourceFile_def vaultSource_def vaultClass_def unlockMethod_def
        malformedFunction_def
        undocumentedSetter_def processFunctionDeclaration_def processClassDeclaration_def
        processConstructors_def processInstanceMethods_def processStaticMethods_def
        processProperties_def processGetters_def processSetters_def processMethod_def
        processAccessor_def DEFAULT_AST_CONFIG_def visibilityOf_def orElse_def Let_def)
  show ?thesis
    by (simp add: main_def positionalFlags_def parseModule_def p n getProperty_def
          objectPrototypeNames_def Let_def)
qed

text \<open>
  C10. When the method named on the command line has a descriptor whose visibility is
  not public, no run of \<^verbatim>\<open>main\<close> imports the module or calls into it; and in a run
  that is to invoke the method (no \<^verbatim>\<open>generate\<close> mode, no help flag, a method name
  that is not empty) \<^verbatim>\<open>main\<close> parses the module, reports that the method is not
  public and returns.
\<close>

theorem main_refuses_non_public:
  assumes "flag_positional (parseArgs args) = modulePath # methodName # rest"
    and "parseModule libs deno modulePath = Some spec"
    and "spec_methods spec methodName = Some methodInfo"
    and "m_visibility methodInfo \<noteq> Public"
  shows "\<not> list_ex invokes (main libs parseArgs importModule deno args)
       \<and> (take 1 args \<noteq> [''generate''] \<and> \<not> flag_help (parseArgs args) \<and> methodName \<noteq> [] \<longrightarrow>
            main libs parseArgs importModule deno args =
              [ParseModule modulePath, ConsoleError (''Method '' @ methodName @ '' is not public'')])"
proof -
  have own: "getProperty (spec_methods spec) methodName = OwnDescriptor methodInfo"
    using assms(3) by (simp add: getProperty_def)
  consider (generateMode) "args \<noteq> [] \<and> take 1 args = [''generate'']"
    | (helpFlag) "\<not> (args \<noteq> [] \<and> take 1 args = [''generate''])" "flag_help (parseArgs args)"
    | (noName) "\<not> (args \<noteq> [] \<and> take 1 args = [''generate''])" "\<not> flag_help (parseArgs args)"
        "methodName = []"
    | (lookup) "\<not> (args \<noteq> [] \<and> take 1 args = [''generate''])" "\<not> flag_help (parseArgs args)"
        "methodName \<noteq> []"
    by blast
  then show ?thesis
  proof cases
    case generateMode
    then show ?thesis by (simp add: main_def)
  next
    case helpFlag
    then show ?thesis by (simp add: main_def Let_def)
  next
    case noName
    with assms show ?thesis by (simp add: main_def Let_def)
  next
    case lookup
    with assms own have "main libs parseArgs importModule deno args =
        [ParseModule modulePath, ConsoleError (''Method '' @ methodName @ '' is not public'')]"
      by (simp add: main_def Let_def)
    then show ?thesis by simp
  qed
qed

theorem main_refuses_non_public_witness:
  "flag_positional (positionalFlags [''vault.ts'', ''Vault.unlock'']) = [''vault.ts'', ''Vault.unlock'']
   \<and> (\<exists>spec mi. parseModule vaultLibraries projectDeno ''vault.ts'' = Some spec
          \<and> spec_methods spec ''Vault.unlock'' = Some mi \<and> m_visibility mi = Private)
   \<and> \<not> list_ex invokes
         (main vaultLibraries positionalFlags alwaysImports projectDeno [''vault.ts'', ''Vault.unlock''])
   \<and> main vaultLibraries positionalFlags alwaysImports projectDeno [''vault.ts'', ''Vault.unlock''] =
       [ParseModule ''vault.ts'', ConsoleError ''Method Vault.unlock is not public'']"
proof -
  have f: "flag_positional (positionalFlags [''vault.ts'', ''Vault.unlock'']) =
             ''vault.ts'' # ''Vault.unlock'' # []"
    by (simp add: positionalFlags_def)
  have h: "\<not> flag_help (positionalFlags [''vault.ts'', ''Vault.unlock''])"
    by (simp add: positionalFlags_def)
  have g: "take 1 [''vault.ts'', ''Vault.unlock''] \<noteq> [''generate'']" by simp
  have p: "ModuleToCLI_get vaultLibraries projectDeno ''vault.ts'' =
             Inr (parseSourceFile throwsOnMalformed DEFAULT_AST_CONFIG
                    (vaultSource\<lparr> sf_baseName := ''temp.ts'' \<rparr>))"
    using ModuleToCLI_get_read[OF projectDeno_read vaultLibraries_tsParse]
    by (simp add: vaultLibraries_commentParser)
  obtain mi where mi: "pr_methods (parseSourceFile throwsOnMalformed DEFAULT_AST_CONFIG
                      (vaultSource\<lparr> sf_baseName := ''temp.ts'' \<rparr>)) ''Vault.unlock'' = Some mi"
      "m_visibility mi = Private"
    using vault_unlock_private by blast
  define spec where "spec = \<lparr> spec_methods = pr_methods (parseSourceFile throwsOnMalformed
        DEFAULT_AST_CONFIG (vaultSource\<lparr> sf_baseName := ''temp.ts'' \<rparr>)),
      spec_module = pr_module (parseSourceFile throwsOnMalformed
        DEFAULT_AST_CONFIG (vaultSource\<lparr> sf_baseName := ''temp.ts'' \<rparr>)) \<rparr>"
  have s: "parseModule vaultLibraries projectDeno ''vault.ts'' = Some spec"
    by (simp add: parseModule_def p spec_def)
  have m: "spec_methods spec ''Vault.unlock'' = Some mi" by (simp add: spec_def mi)
  have v: "m_visibility mi \<noteq> Public" by (simp add: mi)
  from main_refuses_non_public[where parseArgs = positionalFlags
      and args = "[''vault.ts'', ''Vault.unlock'']" and importModule = alwaysImports, OF f s m v]
    f g h s m mi(2)
  show ?thesis by auto
qed

end
